theory Spec2Isabelle
  imports Main "HOL-Library.Word"
begin

section \<open>The Android integrity measurement collector (imc\_android.c)\<close>

text \<open>
  A shallow embedding of \<^verbatim>\<open>src/frontends/android/jni/libandroidbridge/byod/imc_android.c\<close>.
  The file holds the eight IF-IMC entry points of the collector and the helpers that
  obtain measurements from the Java side. The process-wide variable \<^verbatim>\<open>imc_android\<close>
  and every call that leaves the file (diagnostics, the measurement subsystem, the
  provider, parsing and sending of messages) are made explicit: the former as a field
  of the state that every entry point takes and returns, the latter as entries of a
  trace kept in that state.
\<close>

subsection \<open>Interface types\<close>

type_synonym TNC_UInt32 = "32 word"
type_synonym TNC_IMCID = "32 word"
type_synonym TNC_ConnectionID = "32 word"
type_synonym TNC_Version = "32 word"
type_synonym TNC_VendorID = "32 word"
type_synonym TNC_MessageSubtype = "32 word"
type_synonym TNC_MessageType = "32 word"
type_synonym TNC_TNCC_BindFunctionPointer = nat
type_synonym chunk_t = "8 word list"
type_synonym pen_t = "32 word"

text \<open>
  Modelled from the spec: the header \<^verbatim>\<open>tncifimc.h\<close> is not among the sources. Section 6
  of the specification gives the result codes of the entry points as the closed set
  success, fatal, not-initialized, already-initialized, no-common-version.
\<close>

datatype TNC_Result =
    TNC_RESULT_SUCCESS
  | TNC_RESULT_NOT_INITIALIZED
  | TNC_RESULT_ALREADY_INITIALIZED
  | TNC_RESULT_NO_COMMON_VERSION
  | TNC_RESULT_FATAL

text \<open>
  Modelled from the spec: the connection states of \<^verbatim>\<open>tncifimc.h\<close>. The source names
  the states create, handshake and delete; the remaining ones are those that reach the
  \<^verbatim>\<open>default\<close> branch of \<^verbatim>\<open>TNC_IMC_NotifyConnectionChange\<close> (section 4.3: further
  lifecycle events).
\<close>

datatype TNC_ConnectionState =
    TNC_CONNECTION_STATE_CREATE
  | TNC_CONNECTION_STATE_HANDSHAKE
  | TNC_CONNECTION_STATE_ACCESS_ALLOWED
  | TNC_CONNECTION_STATE_ACCESS_ISOLATED
  | TNC_CONNECTION_STATE_ACCESS_NONE
  | TNC_CONNECTION_STATE_DELETE

text \<open>
  Modelled from the spec: the evaluation results (section 3: unknown, allow, isolate,
  block; the source names only the value "don't know").
\<close>

datatype TNC_IMV_Evaluation_Result =
    TNC_IMV_EVALUATION_RESULT_COMPLIANT
  | TNC_IMV_EVALUATION_RESULT_NONCOMPLIANT_MINOR
  | TNC_IMV_EVALUATION_RESULT_NONCOMPLIANT_MAJOR
  | TNC_IMV_EVALUATION_RESULT_ERROR
  | TNC_IMV_EVALUATION_RESULT_DONT_KNOW

text \<open>
  Modelled from the spec: the headers that define the constants below (\<^verbatim>\<open>pen.h\<close>,
  \<^verbatim>\<open>ietf_attr.h\<close>, \<^verbatim>\<open>ita_attr.h\<close>, \<^verbatim>\<open>tncif_pa_subtypes.h\<close>, \<^verbatim>\<open>tncifimc.h\<close>) are not
  among the sources. Section 3 makes \<open>vendor_id\<close> a namespace identifier with a reserved
  value for the IETF namespace and \<open>type\<close> a 32-bit identifier within that namespace;
  section 4.5 speaks of the one supported protocol version. The constants carry the
  values their names have in the public registries (IANA enterprise numbers, RFC 5792,
  TCG IF-IMC 1.3). The general statements use only that \<open>PEN_IETF\<close> and \<open>PEN_ITA\<close>
  differ, which the \<^verbatim>\<open>switch\<close> of \<^verbatim>\<open>receive_message\<close> requires of its case labels;
  the values themselves matter only where a statement is evaluated on concrete input.
\<close>

definition TNC_IFIMC_VERSION_1 :: TNC_Version where
  "TNC_IFIMC_VERSION_1 = 1"

definition TNC_IMVID_ANY :: TNC_UInt32 where
  "TNC_IMVID_ANY = 0xffff"

definition PEN_IETF :: pen_t where
  "PEN_IETF = 0x000000"

definition PEN_ITA :: pen_t where
  "PEN_ITA = 0x00902a"

definition PA_SUBTYPE_IETF_OPERATING_SYSTEM :: "32 word" where
  "PA_SUBTYPE_IETF_OPERATING_SYSTEM = 0x01"

definition PA_SUBTYPE_IETF_VPN :: "32 word" where
  "PA_SUBTYPE_IETF_VPN = 0x07"

definition IETF_ATTR_ATTRIBUTE_REQUEST :: "32 word" where
  "IETF_ATTR_ATTRIBUTE_REQUEST = 1"

definition IETF_ATTR_PRODUCT_INFORMATION :: "32 word" where
  "IETF_ATTR_PRODUCT_INFORMATION = 2"

definition IETF_ATTR_STRING_VERSION :: "32 word" where
  "IETF_ATTR_STRING_VERSION = 4"

definition ITA_ATTR_GET_SETTINGS :: "32 word" where
  "ITA_ATTR_GET_SETTINGS = 3"

definition ITA_ATTR_SETTINGS :: "32 word" where
  "ITA_ATTR_SETTINGS = 4"

text \<open>\<^verbatim>\<open>pen_type_t\<close>: a vendor id together with a type of that vendor's namespace.\<close>

record pen_type_t =
  vendor_id :: pen_t
  type :: "32 word"

text \<open>\<^verbatim>\<open>static pen_type_t msg_types[]\<close>\<close>

definition msg_types :: "pen_type_t list" where
  "msg_types =
     [\<lparr>vendor_id = PEN_IETF, type = PA_SUBTYPE_IETF_OPERATING_SYSTEM\<rparr>,
      \<lparr>vendor_id = PEN_IETF, type = PA_SUBTYPE_IETF_VPN\<rparr>]"

subsection \<open>Attributes and messages\<close>

text \<open>
  A PA-TNC attribute object. Of the attribute classes of the library the file touches
  two through a cast: the IETF attribute request, which enumerates \<^verbatim>\<open>pen_type_t\<close>
  entries, and the ITA get-settings attribute, which enumerates setting names. Every
  other attribute is its type together with its value.
\<close>

datatype pa_tnc_attr_t =
    ietf_attr_attr_request "pen_type_t list"
  | ita_attr_get_settings "string list"
  | pa_tnc_attr pen_type_t chunk_t

fun get_type :: "pa_tnc_attr_t \<Rightarrow> pen_type_t" where
  "get_type (ietf_attr_attr_request entries) =
     \<lparr>vendor_id = PEN_IETF, type = IETF_ATTR_ATTRIBUTE_REQUEST\<rparr>"
| "get_type (ita_attr_get_settings names) =
     \<lparr>vendor_id = PEN_ITA, type = ITA_ATTR_GET_SETTINGS\<rparr>"
| "get_type (pa_tnc_attr t v) = t"

text \<open>
  \<^verbatim>\<open>attr_cast->create_enumerator(attr_cast)\<close> after the cast to
  \<^verbatim>\<open>ietf_attr_attr_request_t*\<close>, respectively \<^verbatim>\<open>ita_attr_get_settings_t*\<close>. The C
  cast is defined only for an object of that class, which is what the attribute
  manager builds for the type the handler has just tested; an object of another class
  has nothing to enumerate here.
\<close>

fun attr_request_enumerator :: "pa_tnc_attr_t \<Rightarrow> pen_type_t list" where
  "attr_request_enumerator (ietf_attr_attr_request entries) = entries"
| "attr_request_enumerator (ita_attr_get_settings names) = []"
| "attr_request_enumerator (pa_tnc_attr t v) = []"

fun get_settings_enumerator :: "pa_tnc_attr_t \<Rightarrow> string list" where
  "get_settings_enumerator (ita_attr_get_settings names) = names"
| "get_settings_enumerator (ietf_attr_attr_request entries) = []"
| "get_settings_enumerator (pa_tnc_attr t v) = []"

text \<open>
  Modelled from the spec: \<^verbatim>\<open>imc_msg.c\<close> is not among the sources. Section 3: a message
  is an ordered sequence of attributes plus framing metadata (connection identifier,
  sender and recipient identifiers, message type); an inbound message also holds the
  raw bytes it was built from.
\<close>

record imc_msg_t =
  msg_connection_id :: TNC_ConnectionID
  msg_src_id :: TNC_UInt32
  msg_dst_id :: TNC_UInt32
  msg_type :: pen_type_t
  msg_data :: chunk_t
  msg_attributes :: "pa_tnc_attr_t list"

subsection \<open>Connection states and the agent\<close>

text \<open>
  Modelled from the spec: \<^verbatim>\<open>imc_android_state.c\<close> and \<^verbatim>\<open>imc_agent.c\<close> are not among
  the sources. Section 3: one record per active connection identifier, with the current
  lifecycle state and an evaluation result that defaults to "don't know". Section 4.3:
  \<open>create\<close> fails if an entry already exists for that id; \<open>get\<close>, \<open>change\<close> and
  \<open>delete\<close> fail if no entry exists; a failed transition is reported as fatal.
\<close>

record imc_state_t =
  st_connection_id :: TNC_ConnectionID
  st_state :: TNC_ConnectionState
  st_result :: TNC_IMV_Evaluation_Result

record imc_agent_t =
  agent_id :: TNC_IMCID
  connections :: "TNC_ConnectionID \<rightharpoonup> imc_state_t"

definition imc_android_state_create :: "TNC_ConnectionID \<Rightarrow> imc_state_t" where
  "imc_android_state_create connection_id =
     \<lparr>st_connection_id = connection_id,
      st_state = TNC_CONNECTION_STATE_CREATE,
      st_result = TNC_IMV_EVALUATION_RESULT_DONT_KNOW\<rparr>"

definition set_result ::
  "imc_state_t \<Rightarrow> TNC_IMCID \<Rightarrow> TNC_IMV_Evaluation_Result \<Rightarrow> imc_state_t" where
  "set_result state imc_id r = state\<lparr>st_result := r\<rparr>"

definition get_state :: "imc_agent_t \<Rightarrow> TNC_ConnectionID \<Rightarrow> imc_state_t option" where
  "get_state agent connection_id = connections agent connection_id"

definition create_state :: "imc_agent_t \<Rightarrow> imc_state_t \<Rightarrow> TNC_Result \<times> imc_agent_t" where
  "create_state agent state =
     (case connections agent (st_connection_id state) of
        Some existing \<Rightarrow> (TNC_RESULT_FATAL, agent)
      | None \<Rightarrow>
          (TNC_RESULT_SUCCESS,
           agent\<lparr>connections := (connections agent)(st_connection_id state \<mapsto> state)\<rparr>))"

text \<open>
  \<open>change_state\<close> hands the state record back through its last argument. The record
  lives in the registry, so the pointer is the connection id under which it is stored.
  Section 4.3 lets the change to the handshake state reset the evaluation result to
  unknown if no earlier round has set it; a result that was never set holds the default
  "don't know" already, so the field is left as it is.
\<close>

definition change_state ::
  "imc_agent_t \<Rightarrow> TNC_ConnectionID \<Rightarrow> TNC_ConnectionState \<Rightarrow> TNC_Result \<times> imc_agent_t" where
  "change_state agent connection_id new_state =
     (case connections agent connection_id of
        None \<Rightarrow> (TNC_RESULT_FATAL, agent)
      | Some state \<Rightarrow>
          (TNC_RESULT_SUCCESS,
           agent\<lparr>connections :=
             (connections agent)(connection_id \<mapsto> state\<lparr>st_state := new_state\<rparr>)\<rparr>))"

definition delete_state :: "imc_agent_t \<Rightarrow> TNC_ConnectionID \<Rightarrow> TNC_Result \<times> imc_agent_t" where
  "delete_state agent connection_id =
     (case connections agent connection_id of
        None \<Rightarrow> (TNC_RESULT_FATAL, agent)
      | Some state \<Rightarrow>
          (TNC_RESULT_SUCCESS,
           agent\<lparr>connections := (connections agent)(connection_id := None)\<rparr>))"

subsection \<open>The host: everything the file calls and does not define\<close>

text \<open>
  The collaborators of the file are parameters of the model. Each field answers one
  kind of call:
  \<^item> \<open>agent_create_ok\<close>: whether \<^verbatim>\<open>imc_agent_create\<close> returns an agent;
  \<^item> \<open>settings\<close>: the values \<^verbatim>\<open>lib->settings\<close> holds;
  \<^item> \<open>jni_new_object_array\<close>, \<open>jni_new_string_utf\<close>, \<open>jni_get_method_id\<close>,
    \<open>jni_get_byte_array_elements\<close>: whether the JNI call of that name succeeds;
  \<^item> \<open>getMeasurement\<close>: the Java method \<^verbatim>\<open>AndroidImc.getMeasurement\<close>, \<open>None\<close> when
    it returns null or throws;
  \<^item> \<open>get_names\<close>: whether the attribute manager has a name table for a vendor;
  \<^item> \<open>msg_receive\<close>: \<^verbatim>\<open>in_msg->receive(in_msg, &fatal_error)\<close>: the result, the flag and
    the attributes the message then enumerates;
  \<^item> \<open>msg_send\<close>: the result of \<^verbatim>\<open>out_msg->send(out_msg, excl)\<close>;
  \<^item> \<open>agent_bind_functions\<close>: the result of \<^verbatim>\<open>imc_android->bind_functions\<close>.
\<close>

record host =
  agent_create_ok :: "TNC_IMCID \<Rightarrow> bool"
  settings :: "string \<rightharpoonup> bool"
  jni_new_object_array :: "nat \<Rightarrow> bool"
  jni_new_string_utf :: "string \<Rightarrow> bool"
  jni_get_method_id :: "string \<Rightarrow> bool"
  getMeasurement :: "pen_t \<Rightarrow> 32 word \<Rightarrow> string list option \<Rightarrow> chunk_t option"
  jni_get_byte_array_elements :: "chunk_t \<Rightarrow> bool"
  get_names :: "pen_t \<Rightarrow> bool"
  msg_receive :: "imc_msg_t \<Rightarrow> TNC_Result \<times> bool \<times> pa_tnc_attr_t list"
  msg_send :: "imc_msg_t \<Rightarrow> bool \<Rightarrow> TNC_Result"
  agent_bind_functions :: "TNC_TNCC_BindFunctionPointer \<Rightarrow> TNC_Result"

text \<open>The diagnostics the file writes with \<^verbatim>\<open>DBG1\<close>.\<close>

datatype diagnostic =
    already_initialized
  | not_initialized
  | no_common_version
  | no_measurement_named pen_type_t
  | no_measurement_unnamed pen_type_t

text \<open>What leaves the file, in the order in which it happens.\<close>

datatype event =
    DBG1 diagnostic
  | libpts_init
  | libpts_deinit
  | agent_destroy
  | call_getMeasurement pen_type_t "string list option"
  | receive imc_msg_t
  | send imc_msg_t bool

text \<open>The state of the process: the static \<^verbatim>\<open>imc_android\<close> and the trace.\<close>

record world =
  imc_android :: "imc_agent_t option"
  trace :: "event list"

definition emit :: "event \<Rightarrow> world \<Rightarrow> world" where
  "emit e w = w\<lparr>trace := trace w @ [e]\<rparr>"

text \<open>The messages handed to \<^verbatim>\<open>send\<close>, each with its exclusive flag, oldest first.\<close>

fun sent :: "event list \<Rightarrow> (imc_msg_t \<times> bool) list" where
  "sent [] = []"
| "sent (send m excl # es) = (m, excl) # sent es"
| "sent (e # es) = sent es"

text \<open>The diagnostics written, oldest first.\<close>

fun diagnostics :: "event list \<Rightarrow> diagnostic list" where
  "diagnostics [] = []"
| "diagnostics (DBG1 d # es) = d # diagnostics es"
| "diagnostics (e # es) = diagnostics es"

subsection \<open>Helpers of the library, modelled from the spec\<close>

text \<open>
  Modelled from the spec: \<^verbatim>\<open>imc_agent_create\<close> (section 4.5: allocates the process-wide
  collector state). A fresh agent holds no connection.
\<close>

definition imc_agent_create :: "host \<Rightarrow> TNC_IMCID \<Rightarrow> imc_agent_t option" where
  "imc_agent_create h imc_id =
     (if agent_create_ok h imc_id
      then Some \<lparr>agent_id = imc_id, connections = Map.empty\<rparr>
      else None)"

text \<open>
  Modelled from the spec: \<^verbatim>\<open>lib->settings->get_bool(settings, key, def)\<close> (section 6:
  settings lookup \<open>get_bool(key, default)\<close>).
\<close>

definition get_bool :: "host \<Rightarrow> string \<Rightarrow> bool \<Rightarrow> bool" where
  "get_bool h key def = (case settings h key of Some b \<Rightarrow> b | None \<Rightarrow> def)"

text \<open>
  Modelled from the spec: the constructors of \<^verbatim>\<open>imc_msg.c\<close> and \<open>add_attribute\<close>
  (section 4.2). \<open>create\<close> gives an empty outbound message bound to a connection, a
  sender, a recipient and a message type; \<open>create_as_reply\<close> gives an empty outbound
  message for the same connection with the roles swapped; \<open>add_attribute\<close> appends.
  The short inbound form carries a \<^verbatim>\<open>TNC_MessageType\<close>, which packs the vendor id above the
  eight bits of the subtype, and no routing metadata.
\<close>

definition imc_msg_create ::
  "imc_agent_t \<Rightarrow> imc_state_t \<Rightarrow> TNC_ConnectionID \<Rightarrow> TNC_UInt32 \<Rightarrow> TNC_UInt32 \<Rightarrow> pen_type_t
     \<Rightarrow> imc_msg_t" where
  "imc_msg_create agent state connection_id src_id dst_id mt =
     \<lparr>msg_connection_id = connection_id, msg_src_id = src_id, msg_dst_id = dst_id,
      msg_type = mt, msg_data = [], msg_attributes = []\<rparr>"

definition imc_msg_create_as_reply :: "imc_msg_t \<Rightarrow> imc_msg_t" where
  "imc_msg_create_as_reply in_msg =
     \<lparr>msg_connection_id = msg_connection_id in_msg,
      msg_src_id = msg_dst_id in_msg, msg_dst_id = msg_src_id in_msg,
      msg_type = msg_type in_msg, msg_data = [], msg_attributes = []\<rparr>"

definition imc_msg_create_from_long_data ::
  "imc_agent_t \<Rightarrow> imc_state_t \<Rightarrow> TNC_ConnectionID \<Rightarrow> TNC_UInt32 \<Rightarrow> TNC_UInt32
     \<Rightarrow> TNC_VendorID \<Rightarrow> TNC_MessageSubtype \<Rightarrow> chunk_t \<Rightarrow> imc_msg_t" where
  "imc_msg_create_from_long_data agent state connection_id src_id dst_id msg_vid msg_subtype msg =
     \<lparr>msg_connection_id = connection_id, msg_src_id = src_id, msg_dst_id = dst_id,
      msg_type = \<lparr>vendor_id = msg_vid, type = msg_subtype\<rparr>,
      msg_data = msg, msg_attributes = []\<rparr>"

definition imc_msg_create_from_data ::
  "imc_agent_t \<Rightarrow> imc_state_t \<Rightarrow> TNC_ConnectionID \<Rightarrow> TNC_MessageType \<Rightarrow> chunk_t
     \<Rightarrow> imc_msg_t" where
  "imc_msg_create_from_data agent state connection_id mt msg =
     imc_msg_create_from_long_data agent state connection_id TNC_IMVID_ANY (agent_id agent)
       (drop_bit 8 mt) (take_bit 8 mt) msg"

definition add_attribute :: "imc_msg_t \<Rightarrow> pa_tnc_attr_t \<Rightarrow> imc_msg_t" where
  "add_attribute msg attr = msg\<lparr>msg_attributes := msg_attributes msg @ [attr]\<rparr>"

text \<open>
  Modelled from the spec: \<^verbatim>\<open>imcv_pa_tnc_attributes->create\<close> (section 4.4: on success
  the raw returned byte payload is wrapped as an attribute typed \<open>(vendor_id, type)\<close>
  matching the request).
\<close>

definition pa_tnc_attr_manager_create :: "pen_t \<Rightarrow> 32 word \<Rightarrow> chunk_t \<Rightarrow> pa_tnc_attr_t option" where
  "pa_tnc_attr_manager_create vid ty data = Some (pa_tnc_attr \<lparr>vendor_id = vid, type = ty\<rparr> data)"

text \<open>
  The state record a registry call has handed out is written through its pointer; the
  record is the one stored under the connection id.
\<close>

definition through_state_pointer ::
  "imc_agent_t \<Rightarrow> TNC_ConnectionID \<Rightarrow> (imc_state_t \<Rightarrow> imc_state_t) \<Rightarrow> imc_agent_t" where
  "through_state_pointer agent connection_id f =
     (case connections agent connection_id of
        None \<Rightarrow> agent
      | Some state \<Rightarrow> agent\<lparr>connections := (connections agent)(connection_id \<mapsto> f state)\<rparr>)"

subsection \<open>The functions of imc\_android.c\<close>

text \<open>
  \<^verbatim>\<open>TNC_IMC_Initialize\<close> (lines 68 to 93). The out-parameter \<^verbatim>\<open>actual_version\<close> is only
  handed on to \<^verbatim>\<open>imc_agent_create\<close> and is left out. \<^verbatim>\<open>imc_android_register\<close>, which
  creates the Java object and registers the entry points, is not part of the model: the
  entry points are modelled as they behave once registered.
\<close>

definition TNC_IMC_Initialize ::
  "host \<Rightarrow> TNC_IMCID \<Rightarrow> TNC_Version \<Rightarrow> TNC_Version \<Rightarrow> world \<Rightarrow> TNC_Result \<times> world" where
  "TNC_IMC_Initialize h imc_id min_version max_version w =
     (case imc_android w of
        Some agent \<Rightarrow> (TNC_RESULT_ALREADY_INITIALIZED, emit (DBG1 already_initialized) w)
      | None \<Rightarrow>
          (case imc_agent_create h imc_id of
             None \<Rightarrow> (TNC_RESULT_FATAL, w)
           | Some agent \<Rightarrow>
               (let w1 = emit libpts_init (w\<lparr>imc_android := Some agent\<rparr>)
                in if min_version > TNC_IFIMC_VERSION_1 \<or> max_version < TNC_IFIMC_VERSION_1
                   then (TNC_RESULT_NO_COMMON_VERSION, emit (DBG1 no_common_version) w1)
                   else (TNC_RESULT_SUCCESS, w1))))"

text \<open>\<^verbatim>\<open>TNC_IMC_NotifyConnectionChange\<close> (lines 98 to 129).\<close>

definition TNC_IMC_NotifyConnectionChange ::
  "host \<Rightarrow> TNC_IMCID \<Rightarrow> TNC_ConnectionID \<Rightarrow> TNC_ConnectionState \<Rightarrow> world
     \<Rightarrow> TNC_Result \<times> world" where
  "TNC_IMC_NotifyConnectionChange h imc_id connection_id new_state w =
     (case imc_android w of
        None \<Rightarrow> (TNC_RESULT_NOT_INITIALIZED, emit (DBG1 not_initialized) w)
      | Some agent \<Rightarrow>
          (case new_state of
             TNC_CONNECTION_STATE_CREATE \<Rightarrow>
               (let (r, agent') = create_state agent (imc_android_state_create connection_id)
                in (r, w\<lparr>imc_android := Some agent'\<rparr>))
           | TNC_CONNECTION_STATE_HANDSHAKE \<Rightarrow>
               (let (r, agent') = change_state agent connection_id new_state
                in if r \<noteq> TNC_RESULT_SUCCESS
                   then (TNC_RESULT_FATAL, w\<lparr>imc_android := Some agent'\<rparr>)
                   else (TNC_RESULT_SUCCESS,
                         w\<lparr>imc_android := Some (through_state_pointer agent' connection_id
                              (\<lambda>state. set_result state imc_id
                                 TNC_IMV_EVALUATION_RESULT_DONT_KNOW))\<rparr>))
           | TNC_CONNECTION_STATE_DELETE \<Rightarrow>
               (let (r, agent') = delete_state agent connection_id
                in (r, w\<lparr>imc_android := Some agent'\<rparr>))
           | _ \<Rightarrow>
               (let (r, agent') = change_state agent connection_id new_state
                in (r, w\<lparr>imc_android := Some agent'\<rparr>))))"

text \<open>
  \<^verbatim>\<open>string_array_create\<close> (lines 135 to 170): the Java array of the strings, or null
  when the array or one of the strings cannot be allocated.
\<close>

definition string_array_create :: "host \<Rightarrow> string list \<Rightarrow> string list option" where
  "string_array_create h enumerator =
     (if \<not> jni_new_object_array h (length enumerator) then None
      else if list_all (jni_new_string_utf h) enumerator then Some enumerator
      else None)"

text \<open>
  \<^verbatim>\<open>get_measurement\<close> (lines 178 to 231). \<open>None\<close> is the null the source returns when
  no measurement is available or an error occurred. The function reads and writes
  nothing of the collector; what it does outside the file is the call of the Java
  method, returned as the second component.
\<close>

definition get_measurement ::
  "host \<Rightarrow> pen_type_t \<Rightarrow> string list option \<Rightarrow> pa_tnc_attr_t option \<times> event list" where
  "get_measurement h attr_type args =
     (case (case args of
              Some enumerator \<Rightarrow> map_option Some (string_array_create h enumerator)
            | None \<Rightarrow> Some None) of
        None \<Rightarrow> (None, [])
      | Some jargs \<Rightarrow>
          if \<not> jni_get_method_id h
                 (if args \<noteq> None then ''(II[Ljava/lang/String;)[B'' else ''(II)[B'')
          then (None, [])
          else
            (case getMeasurement h (vendor_id attr_type) (type attr_type) jargs of
               None \<Rightarrow> (None, [call_getMeasurement attr_type jargs])
             | Some jmeasurement \<Rightarrow>
                 if \<not> jni_get_byte_array_elements h jmeasurement
                 then (None, [call_getMeasurement attr_type jargs])
                 else (pa_tnc_attr_manager_create (vendor_id attr_type) (type attr_type)
                         jmeasurement,
                       [call_getMeasurement attr_type jargs])))"

text \<open>\<^verbatim>\<open>add_measurement\<close> (lines 237 to 263).\<close>

definition add_measurement ::
  "host \<Rightarrow> pen_type_t \<Rightarrow> imc_msg_t \<Rightarrow> string list option \<Rightarrow> world \<Rightarrow> imc_msg_t \<times> world" where
  "add_measurement h attr_type msg args w =
     (case get_measurement h attr_type args of
        (attr_opt, calls) \<Rightarrow>
          (let w1 = w\<lparr>trace := trace w @ calls\<rparr>
           in case attr_opt of
                Some attr \<Rightarrow> (add_attribute msg attr, w1)
              | None \<Rightarrow>
                  if get_names h (vendor_id attr_type)
                  then (msg, emit (DBG1 (no_measurement_named attr_type)) w1)
                  else (msg, emit (DBG1 (no_measurement_unnamed attr_type)) w1)))"

text \<open>
  \<^verbatim>\<open>handle_ietf_attribute\<close> (lines 268 to 285); \<open>enumerate_entries\<close> is its
  \<^verbatim>\<open>while\<close> loop over the entries of the request.
\<close>

fun enumerate_entries ::
  "host \<Rightarrow> pen_type_t list \<Rightarrow> imc_msg_t \<Rightarrow> world \<Rightarrow> imc_msg_t \<times> world" where
  "enumerate_entries h [] out_msg w = (out_msg, w)"
| "enumerate_entries h (entry # enumerator) out_msg w =
     (case add_measurement h entry out_msg None w of
        (out_msg', w') \<Rightarrow> enumerate_entries h enumerator out_msg' w')"

definition handle_ietf_attribute ::
  "host \<Rightarrow> pen_type_t \<Rightarrow> pa_tnc_attr_t \<Rightarrow> imc_msg_t \<Rightarrow> world \<Rightarrow> imc_msg_t \<times> world" where
  "handle_ietf_attribute h attr_type attr out_msg w =
     (if type attr_type = IETF_ATTR_ATTRIBUTE_REQUEST
      then enumerate_entries h (attr_request_enumerator attr) out_msg w
      else (out_msg, w))"

text \<open>\<^verbatim>\<open>handle_ita_attribute\<close> (lines 290 to 301).\<close>

definition handle_ita_attribute ::
  "host \<Rightarrow> pen_type_t \<Rightarrow> pa_tnc_attr_t \<Rightarrow> imc_msg_t \<Rightarrow> world \<Rightarrow> imc_msg_t \<times> world" where
  "handle_ita_attribute h attr_type attr out_msg w =
     (if type attr_type = ITA_ATTR_GET_SETTINGS
      then add_measurement h \<lparr>vendor_id = PEN_ITA, type = ITA_ATTR_SETTINGS\<rparr> out_msg
             (Some (get_settings_enumerator attr)) w
      else (out_msg, w))"

text \<open>\<^verbatim>\<open>TNC_IMC_BeginHandshake\<close> (lines 306 to 337).\<close>

definition TNC_IMC_BeginHandshake ::
  "host \<Rightarrow> TNC_IMCID \<Rightarrow> TNC_ConnectionID \<Rightarrow> world \<Rightarrow> TNC_Result \<times> world" where
  "TNC_IMC_BeginHandshake h imc_id connection_id w =
     (case imc_android w of
        None \<Rightarrow> (TNC_RESULT_NOT_INITIALIZED, emit (DBG1 not_initialized) w)
      | Some agent \<Rightarrow>
          (case get_state agent connection_id of
             None \<Rightarrow> (TNC_RESULT_FATAL, w)
           | Some state \<Rightarrow>
               if get_bool h ''android.imc.send_os_info'' True
               then
                 (let out_msg = imc_msg_create agent state connection_id imc_id TNC_IMVID_ANY
                                  (msg_types ! 0)
                  in case add_measurement h
                            \<lparr>vendor_id = PEN_IETF, type = IETF_ATTR_PRODUCT_INFORMATION\<rparr>
                            out_msg None w of
                       (out_msg1, w1) \<Rightarrow>
                         (case add_measurement h
                                 \<lparr>vendor_id = PEN_IETF, type = IETF_ATTR_STRING_VERSION\<rparr>
                                 out_msg1 None w1 of
                            (out_msg2, w2) \<Rightarrow>
                              (msg_send h out_msg2 False, emit (send out_msg2 False) w2)))
               else (TNC_RESULT_SUCCESS, w)))"

text \<open>
  \<^verbatim>\<open>receive_message\<close> (lines 339 to 387). \<open>handle_attribute\<close> is the \<^verbatim>\<open>switch\<close> on the
  vendor id, \<open>analyze_attributes\<close> the \<^verbatim>\<open>while\<close> loop around it.
\<close>

definition handle_attribute ::
  "host \<Rightarrow> pa_tnc_attr_t \<Rightarrow> imc_msg_t \<Rightarrow> world \<Rightarrow> imc_msg_t \<times> world" where
  "handle_attribute h attr out_msg w =
     (let attr_type = get_type attr
      in if vendor_id attr_type = PEN_IETF
         then handle_ietf_attribute h attr_type attr out_msg w
         else if vendor_id attr_type = PEN_ITA
         then handle_ita_attribute h attr_type attr out_msg w
         else (out_msg, w))"

fun analyze_attributes ::
  "host \<Rightarrow> pa_tnc_attr_t list \<Rightarrow> imc_msg_t \<Rightarrow> world \<Rightarrow> imc_msg_t \<times> world" where
  "analyze_attributes h [] out_msg w = (out_msg, w)"
| "analyze_attributes h (attr # enumerator) out_msg w =
     (case handle_attribute h attr out_msg w of
        (out_msg', w') \<Rightarrow> analyze_attributes h enumerator out_msg' w')"

definition receive_message :: "host \<Rightarrow> imc_msg_t \<Rightarrow> world \<Rightarrow> TNC_Result \<times> world" where
  "receive_message h in_msg w =
     (case msg_receive h in_msg of
        (result, fatal_error, attrs) \<Rightarrow>
          (let w0 = emit (receive in_msg) w
           in if result \<noteq> TNC_RESULT_SUCCESS then (result, w0)
              else
                (case analyze_attributes h attrs (imc_msg_create_as_reply in_msg) w0 of
                   (out_msg, w1) \<Rightarrow>
                     if fatal_error then (TNC_RESULT_FATAL, w1)
                     else (msg_send h out_msg True, emit (send out_msg True) w1))))"

text \<open>
  \<^verbatim>\<open>TNC_IMC_ReceiveMessage\<close> (lines 393 to 418) and \<^verbatim>\<open>TNC_IMC_ReceiveMessageLong\<close>
  (lines 423 to 453). The argument \<open>msg\<close> is the buffer of \<^verbatim>\<open>msg_len\<close> bytes.
\<close>

definition TNC_IMC_ReceiveMessage ::
  "host \<Rightarrow> TNC_IMCID \<Rightarrow> TNC_ConnectionID \<Rightarrow> chunk_t \<Rightarrow> TNC_MessageType \<Rightarrow> world
     \<Rightarrow> TNC_Result \<times> world" where
  "TNC_IMC_ReceiveMessage h imc_id connection_id msg mt w =
     (case imc_android w of
        None \<Rightarrow> (TNC_RESULT_NOT_INITIALIZED, emit (DBG1 not_initialized) w)
      | Some agent \<Rightarrow>
          (case get_state agent connection_id of
             None \<Rightarrow> (TNC_RESULT_FATAL, w)
           | Some state \<Rightarrow>
               receive_message h (imc_msg_create_from_data agent state connection_id mt msg) w))"

definition TNC_IMC_ReceiveMessageLong ::
  "host \<Rightarrow> TNC_IMCID \<Rightarrow> TNC_ConnectionID \<Rightarrow> TNC_UInt32 \<Rightarrow> chunk_t \<Rightarrow> TNC_VendorID
     \<Rightarrow> TNC_MessageSubtype \<Rightarrow> TNC_UInt32 \<Rightarrow> TNC_UInt32 \<Rightarrow> world \<Rightarrow> TNC_Result \<times> world" where
  "TNC_IMC_ReceiveMessageLong h imc_id connection_id msg_flags msg msg_vid msg_subtype
       src_imv_id dst_imc_id w =
     (case imc_android w of
        None \<Rightarrow> (TNC_RESULT_NOT_INITIALIZED, emit (DBG1 not_initialized) w)
      | Some agent \<Rightarrow>
          (case get_state agent connection_id of
             None \<Rightarrow> (TNC_RESULT_FATAL, w)
           | Some state \<Rightarrow>
               receive_message h
                 (imc_msg_create_from_long_data agent state connection_id src_imv_id dst_imc_id
                    msg_vid msg_subtype msg) w))"

text \<open>\<^verbatim>\<open>TNC_IMC_BatchEnding\<close> (lines 458 to 467).\<close>

definition TNC_IMC_BatchEnding ::
  "host \<Rightarrow> TNC_IMCID \<Rightarrow> TNC_ConnectionID \<Rightarrow> world \<Rightarrow> TNC_Result \<times> world" where
  "TNC_IMC_BatchEnding h imc_id connection_id w =
     (case imc_android w of
        None \<Rightarrow> (TNC_RESULT_NOT_INITIALIZED, emit (DBG1 not_initialized) w)
      | Some agent \<Rightarrow> (TNC_RESULT_SUCCESS, w))"

text \<open>\<^verbatim>\<open>TNC_IMC_Terminate\<close> (lines 472 to 484).\<close>

definition TNC_IMC_Terminate :: "host \<Rightarrow> TNC_IMCID \<Rightarrow> world \<Rightarrow> TNC_Result \<times> world" where
  "TNC_IMC_Terminate h imc_id w =
     (case imc_android w of
        None \<Rightarrow> (TNC_RESULT_NOT_INITIALIZED, emit (DBG1 not_initialized) w)
      | Some agent \<Rightarrow>
          (TNC_RESULT_SUCCESS,
           (emit agent_destroy (emit libpts_deinit w))\<lparr>imc_android := None\<rparr>))"

text \<open>\<^verbatim>\<open>TNC_IMC_ProvideBindFunction\<close> (lines 489 to 498).\<close>

definition TNC_IMC_ProvideBindFunction ::
  "host \<Rightarrow> TNC_IMCID \<Rightarrow> TNC_TNCC_BindFunctionPointer \<Rightarrow> world \<Rightarrow> TNC_Result \<times> world" where
  "TNC_IMC_ProvideBindFunction h imc_id bind_function w =
     (case imc_android w of
        None \<Rightarrow> (TNC_RESULT_NOT_INITIALIZED, emit (DBG1 not_initialized) w)
      | Some agent \<Rightarrow> (agent_bind_functions h bind_function, w))"

subsection \<open>Call sequences\<close>

text \<open>
  The host engine drives the collector through its eight entry points (they are the
  functions \<^verbatim>\<open>imc_android_register\<close> hands to \<^verbatim>\<open>load_from_functions\<close>). A call is an entry
  point with its arguments; \<open>invoke\<close> performs one call, \<open>run\<close> a sequence of calls,
  collecting the result codes.
\<close>

datatype call =
    Initialize TNC_IMCID TNC_Version TNC_Version
  | NotifyConnectionChange TNC_IMCID TNC_ConnectionID TNC_ConnectionState
  | BeginHandshake TNC_IMCID TNC_ConnectionID
  | ReceiveMessage TNC_IMCID TNC_ConnectionID chunk_t TNC_MessageType
  | ReceiveMessageLong TNC_IMCID TNC_ConnectionID TNC_UInt32 chunk_t TNC_VendorID
      TNC_MessageSubtype TNC_UInt32 TNC_UInt32
  | BatchEnding TNC_IMCID TNC_ConnectionID
  | Terminate TNC_IMCID
  | ProvideBindFunction TNC_IMCID TNC_TNCC_BindFunctionPointer

fun invoke :: "host \<Rightarrow> call \<Rightarrow> world \<Rightarrow> TNC_Result \<times> world" where
  "invoke h (Initialize i mn mx) w = TNC_IMC_Initialize h i mn mx w"
| "invoke h (NotifyConnectionChange i c s) w = TNC_IMC_NotifyConnectionChange h i c s w"
| "invoke h (BeginHandshake i c) w = TNC_IMC_BeginHandshake h i c w"
| "invoke h (ReceiveMessage i c m t) w = TNC_IMC_ReceiveMessage h i c m t w"
| "invoke h (ReceiveMessageLong i c f m v s src dst) w =
     TNC_IMC_ReceiveMessageLong h i c f m v s src dst w"
| "invoke h (BatchEnding i c) w = TNC_IMC_BatchEnding h i c w"
| "invoke h (Terminate i) w = TNC_IMC_Terminate h i w"
| "invoke h (ProvideBindFunction i b) w = TNC_IMC_ProvideBindFunction h i b w"

fun run :: "host \<Rightarrow> call list \<Rightarrow> world \<Rightarrow> TNC_Result list \<times> world" where
  "run h [] w = ([], w)"
| "run h (c # cs) w =
     (case invoke h c w of
        (r, w') \<Rightarrow> (case run h cs w' of (rs, w'') \<Rightarrow> (r # rs, w'')))"

fun is_Initialize :: "call \<Rightarrow> bool" where
  "is_Initialize (Initialize i mn mx) = True"
| "is_Initialize c = False"

fun is_Terminate :: "call \<Rightarrow> bool" where
  "is_Terminate (Terminate i) = True"
| "is_Terminate c = False"

section \<open>A deterministic host for concrete scenarios\<close>

text \<open>
  An in-memory host used where a statement is evaluated on concrete input. Its parser
  looks at the first byte of the message only: an empty buffer is a framing error that
  the parser answers with a fatal result, a leading 0 is a message whose parse sets the
  fatal-error flag, a leading 1 is a message with one attribute request for product
  information, string version and a type of another vendor that the provider does not
  know, anything else is a message with one get-settings attribute. Its provider has data
  for product information, string version and the settings.
\<close>

definition example_receive :: "imc_msg_t \<Rightarrow> TNC_Result \<times> bool \<times> pa_tnc_attr_t list" where
  "example_receive m =
     (case msg_data m of
        [] \<Rightarrow> (TNC_RESULT_FATAL, False, [])
      | b # bs \<Rightarrow>
          if b = 0 then (TNC_RESULT_SUCCESS, True, [pa_tnc_attr \<lparr>vendor_id = PEN_IETF, type = 8\<rparr> bs])
          else if b = 1 then
            (TNC_RESULT_SUCCESS, False,
             [ietf_attr_attr_request
                [\<lparr>vendor_id = PEN_IETF, type = IETF_ATTR_PRODUCT_INFORMATION\<rparr>,
                 \<lparr>vendor_id = PEN_IETF, type = IETF_ATTR_STRING_VERSION\<rparr>,
                 \<lparr>vendor_id = 0x1234, type = 9999\<rparr>]])
          else (TNC_RESULT_SUCCESS, False, [ita_attr_get_settings [''android_id'']]))"

definition example_provider :: "pen_t \<Rightarrow> 32 word \<Rightarrow> string list option \<Rightarrow> chunk_t option" where
  "example_provider vid ty args =
     (if vid = PEN_IETF \<and> ty = IETF_ATTR_PRODUCT_INFORMATION then Some [0x41]
      else if vid = PEN_IETF \<and> ty = IETF_ATTR_STRING_VERSION then Some [0x34, 0x2e, 0x34]
      else if vid = PEN_ITA \<and> ty = ITA_ATTR_SETTINGS \<and> args \<noteq> None then Some [0x01]
      else None)"

definition example_host :: host where
  "example_host =
     \<lparr>agent_create_ok = (\<lambda>imc_id. True),
      settings = Map.empty,
      jni_new_object_array = (\<lambda>n. True),
      jni_new_string_utf = (\<lambda>s. True),
      jni_get_method_id = (\<lambda>s. True),
      getMeasurement = example_provider,
      jni_get_byte_array_elements = (\<lambda>c. True),
      get_names = (\<lambda>vid. vid = PEN_IETF \<or> vid = PEN_ITA),
      msg_receive = example_receive,
      msg_send = (\<lambda>m excl. TNC_RESULT_SUCCESS),
      agent_bind_functions = (\<lambda>b. TNC_RESULT_SUCCESS)\<rparr>"

text \<open>
  Two states of the process: the one before any call, and one with an agent that holds a
  single connection, number 7, whose record still carries an evaluation result of an
  earlier round. \<open>inbound bytes\<close> is a message from verifier 2 to collector 1 on that
  connection with the given raw bytes.
\<close>

definition uninitialized :: world where
  "uninitialized = \<lparr>imc_android = None, trace = []\<rparr>"

definition connected :: world where
  "connected =
     \<lparr>imc_android = Some \<lparr>agent_id = 1,
        connections = [7 \<mapsto> \<lparr>st_connection_id = 7,
                                 st_state = TNC_CONNECTION_STATE_CREATE,
                                 st_result = TNC_IMV_EVALUATION_RESULT_COMPLIANT\<rparr>]\<rparr>,
      trace = []\<rparr>"

definition inbound :: "chunk_t \<Rightarrow> imc_msg_t" where
  "inbound bytes =
     \<lparr>msg_connection_id = 7, msg_src_id = 2, msg_dst_id = 1,
      msg_type = \<lparr>vendor_id = PEN_IETF, type = PA_SUBTYPE_IETF_OPERATING_SYSTEM\<rparr>,
      msg_data = bytes, msg_attributes = []\<rparr>"

text \<open>
  Variants of the example host. \<open>refusing_host\<close> refuses every message handed to
  \<^verbatim>\<open>send\<close>; \<open>two_pair_host\<close> does so too and parses every message into one attribute
  request for string version and the unknown type; on \<open>jni_failing_host\<close> the JNI call
  \<^verbatim>\<open>GetByteArrayElements\<close> returns null; \<open>mixed_host\<close> parses every message into four
  attributes: product information, an attribute request, an attribute of another
  vendor, and a get-settings attribute.
\<close>

definition refusing_host :: host where
  "refusing_host = example_host\<lparr>msg_send := (\<lambda>m excl. TNC_RESULT_FATAL)\<rparr>"

definition two_pair_host :: host where
  "two_pair_host =
     refusing_host\<lparr>msg_receive := (\<lambda>m.
       (TNC_RESULT_SUCCESS, False,
        [ietf_attr_attr_request
           [\<lparr>vendor_id = PEN_IETF, type = IETF_ATTR_STRING_VERSION\<rparr>,
            \<lparr>vendor_id = 0x1234, type = 9999\<rparr>]]))\<rparr>"

definition jni_failing_host :: host where
  "jni_failing_host = example_host\<lparr>jni_get_byte_array_elements := (\<lambda>c. False)\<rparr>"

definition mixed_host :: host where
  "mixed_host =
     example_host\<lparr>msg_receive := (\<lambda>m.
       (TNC_RESULT_SUCCESS, False,
        [pa_tnc_attr \<lparr>vendor_id = PEN_IETF, type = IETF_ATTR_PRODUCT_INFORMATION\<rparr> [0x41],
         ietf_attr_attr_request
           [\<lparr>vendor_id = PEN_IETF, type = IETF_ATTR_STRING_VERSION\<rparr>,
            \<lparr>vendor_id = 0x1234, type = 9999\<rparr>],
         pa_tnc_attr \<lparr>vendor_id = 0x1234, type = 1\<rparr> [],
         ita_attr_get_settings [''android_id'']]))\<rparr>"

section \<open>Auxiliary facts\<close>

subsection \<open>Initialisation by cases\<close>

lemma Initialize_cases:
  "TNC_IMC_Initialize h imc_id mn mx w =
     (if imc_android w \<noteq> None
      then (TNC_RESULT_ALREADY_INITIALIZED, emit (DBG1 already_initialized) w)
      else if \<not> agent_create_ok h imc_id then (TNC_RESULT_FATAL, w)
      else if TNC_IFIMC_VERSION_1 \<notin> {mn..mx}
      then (TNC_RESULT_NO_COMMON_VERSION,
            emit (DBG1 no_common_version)
              (emit libpts_init (w\<lparr>imc_android := Some \<lparr>agent_id = imc_id, connections = Map.empty\<rparr>\<rparr>)))
      else (TNC_RESULT_SUCCESS,
            emit libpts_init (w\<lparr>imc_android := Some \<lparr>agent_id = imc_id, connections = Map.empty\<rparr>\<rparr>)))"
  by (auto simp: TNC_IMC_Initialize_def imc_agent_create_def Let_def not_le split: option.splits)

subsection \<open>What measuring does to the reply and to the trace\<close>

lemma sent_append [simp]: "sent (xs @ ys) = sent xs @ sent ys"
  by (induction xs rule: sent.induct) simp_all

lemma diagnostics_append [simp]: "diagnostics (xs @ ys) = diagnostics xs @ diagnostics ys"
  by (induction xs rule: diagnostics.induct) simp_all

lemma get_measurement_quiet:
  "sent (snd (get_measurement h t a)) = []" "diagnostics (snd (get_measurement h t a)) = []"
  by (auto simp: get_measurement_def split: option.splits)

lemma get_measurement_type:
  "fst (get_measurement h t a) = Some x \<Longrightarrow> get_type x = t"
  by (auto simp: get_measurement_def pa_tnc_attr_manager_create_def split: option.splits if_splits)

lemma add_measurement_msg:
  "fst (add_measurement h t m a w) =
     m\<lparr>msg_attributes := msg_attributes m @
          (case fst (get_measurement h t a) of Some x \<Rightarrow> [x] | None \<Rightarrow> [])\<rparr>"
  by (cases "get_measurement h t a")
     (simp add: add_measurement_def add_attribute_def Let_def split: option.splits)

lemma add_measurement_sent:
  "sent (trace (snd (add_measurement h t m a w))) = sent (trace w)"
  using get_measurement_quiet(1) [of h t a]
  by (cases "get_measurement h t a") (simp add: add_measurement_def Let_def emit_def split: option.splits)

lemma add_measurement_diagnostics:
  "diagnostics (trace (snd (add_measurement h t m a w))) =
     diagnostics (trace w) @
       (case fst (get_measurement h t a) of
          Some x \<Rightarrow> []
        | None \<Rightarrow> [if get_names h (vendor_id t) then no_measurement_named t
                   else no_measurement_unnamed t])"
  using get_measurement_quiet(2) [of h t a]
  by (cases "get_measurement h t a") (simp add: add_measurement_def Let_def emit_def split: option.splits)

lemma add_measurement_imc_android:
  "imc_android (snd (add_measurement h t m a w)) = imc_android w"
  by (cases "get_measurement h t a") (simp add: add_measurement_def Let_def emit_def split: option.splits)

lemma enumerate_entries_msg:
  "fst (enumerate_entries h es m w) =
     m\<lparr>msg_attributes := msg_attributes m @
          List.map_filter (\<lambda>e. fst (get_measurement h e None)) es\<rparr>"
proof (induction es arbitrary: m w)
  case Nil
  show ?case by simp
next
  case (Cons e es)
  obtain m' w' where step: "add_measurement h e m None w = (m', w')"
    by (cases "add_measurement h e m None w")
  have "m' = m\<lparr>msg_attributes := msg_attributes m @
          (case fst (get_measurement h e None) of Some x \<Rightarrow> [x] | None \<Rightarrow> [])\<rparr>"
    using add_measurement_msg [of h e m None w] step by simp
  with Cons.IH [of m' w'] step show ?case
    by (simp split: option.splits)
qed

lemma enumerate_entries_sent:
  "sent (trace (snd (enumerate_entries h es m w))) = sent (trace w)"
proof (induction es arbitrary: m w)
  case Nil
  show ?case by simp
next
  case (Cons e es)
  obtain m' w' where step: "add_measurement h e m None w = (m', w')"
    by (cases "add_measurement h e m None w")
  have "sent (trace w') = sent (trace w)"
    using add_measurement_sent [of h e m None w] step by simp
  with Cons.IH [of m' w'] step show ?case by simp
qed

lemma enumerate_entries_imc_android:
  "imc_android (snd (enumerate_entries h es m w)) = imc_android w"
proof (induction es arbitrary: m w)
  case Nil
  show ?case by simp
next
  case (Cons e es)
  obtain m' w' where step: "add_measurement h e m None w = (m', w')"
    by (cases "add_measurement h e m None w")
  have "imc_android w' = imc_android w"
    using add_measurement_imc_android [of h e m None w] step by simp
  with Cons.IH [of m' w'] step show ?case by simp
qed

lemma enumerate_entries_diagnostics:
  "diagnostics (trace (snd (enumerate_entries h es m w))) =
     diagnostics (trace w) @
       map (\<lambda>e. if get_names h (vendor_id e) then no_measurement_named e
                else no_measurement_unnamed e)
         (filter (\<lambda>e. fst (get_measurement h e None) = None) es)"
proof (induction es arbitrary: m w)
  case Nil
  show ?case by simp
next
  case (Cons e es)
  obtain m' w' where step: "add_measurement h e m None w = (m', w')"
    by (cases "add_measurement h e m None w")
  have "diagnostics (trace w') = diagnostics (trace w) @
       (case fst (get_measurement h e None) of
          Some x \<Rightarrow> []
        | None \<Rightarrow> [if get_names h (vendor_id e) then no_measurement_named e
                   else no_measurement_unnamed e])"
    using add_measurement_diagnostics [of h e m None w] step by simp
  with Cons.IH [of m' w'] step show ?case
    by (simp split: option.splits)
qed

subsection \<open>Dispatch of the attributes of a message\<close>

lemma map_filter_length:
  "length (List.map_filter f xs) + length (filter (\<lambda>x. f x = None) xs) = length xs"
  by (induction xs) (simp_all split: option.splits)

lemma vendors_differ: "PEN_IETF \<noteq> PEN_ITA"
  by (simp add: PEN_IETF_def PEN_ITA_def)

lemma handle_attribute_request:
  "handle_attribute h (ietf_attr_attr_request es) m w = enumerate_entries h es m w"
  by (simp add: handle_attribute_def handle_ietf_attribute_def)

lemma handle_attribute_get_settings:
  "handle_attribute h (ita_attr_get_settings names) m w =
     add_measurement h \<lparr>vendor_id = PEN_ITA, type = ITA_ATTR_SETTINGS\<rparr> m (Some names) w"
  using vendors_differ by (simp add: handle_attribute_def handle_ita_attribute_def)

lemma handle_attribute_other:
  assumes "get_type attr \<noteq> \<lparr>vendor_id = PEN_IETF, type = IETF_ATTR_ATTRIBUTE_REQUEST\<rparr>"
      and "get_type attr \<noteq> \<lparr>vendor_id = PEN_ITA, type = ITA_ATTR_GET_SETTINGS\<rparr>"
  shows "handle_attribute h attr m w = (m, w)"
proof (cases attr)
  case (ietf_attr_attr_request es)
  with assms(1) show ?thesis by simp
next
  case (ita_attr_get_settings names)
  with assms(2) show ?thesis by simp
next
  case (pa_tnc_attr t v)
  with assms show ?thesis
    by (cases t)
       (auto simp: handle_attribute_def handle_ietf_attribute_def handle_ita_attribute_def Let_def)
qed

lemma handle_attribute_keeps:
  "sent (trace (snd (handle_attribute h attr m w))) = sent (trace w)"
  "imc_android (snd (handle_attribute h attr m w)) = imc_android w"
  "msg_connection_id (fst (handle_attribute h attr m w)) = msg_connection_id m"
  "msg_src_id (fst (handle_attribute h attr m w)) = msg_src_id m"
  "msg_dst_id (fst (handle_attribute h attr m w)) = msg_dst_id m"
  "msg_type (fst (handle_attribute h attr m w)) = msg_type m"
  by (simp_all add: handle_attribute_def handle_ietf_attribute_def handle_ita_attribute_def
        Let_def enumerate_entries_sent enumerate_entries_imc_android enumerate_entries_msg
        add_measurement_sent add_measurement_imc_android add_measurement_msg)

lemma analyze_attributes_keeps:
  "sent (trace (snd (analyze_attributes h attrs m w))) = sent (trace w)
   \<and> imc_android (snd (analyze_attributes h attrs m w)) = imc_android w
   \<and> msg_connection_id (fst (analyze_attributes h attrs m w)) = msg_connection_id m
   \<and> msg_src_id (fst (analyze_attributes h attrs m w)) = msg_src_id m
   \<and> msg_dst_id (fst (analyze_attributes h attrs m w)) = msg_dst_id m
   \<and> msg_type (fst (analyze_attributes h attrs m w)) = msg_type m"
proof (induction attrs arbitrary: m w)
  case Nil
  show ?case by simp
next
  case (Cons a attrs)
  obtain m' w' where step: "handle_attribute h a m w = (m', w')"
    by (cases "handle_attribute h a m w")
  show ?case
    using Cons.IH [of m' w'] handle_attribute_keeps [of h a m w] step by simp
qed

lemma receive_message_cases:
  "receive_message h in_msg w =
     (let w0 = emit (receive in_msg) w;
          reply = analyze_attributes h (snd (snd (msg_receive h in_msg)))
                    (imc_msg_create_as_reply in_msg) w0
      in if fst (msg_receive h in_msg) \<noteq> TNC_RESULT_SUCCESS
         then (fst (msg_receive h in_msg), w0)
         else if fst (snd (msg_receive h in_msg)) then (TNC_RESULT_FATAL, snd reply)
         else (msg_send h (fst reply) True, emit (send (fst reply) True) (snd reply)))"
  by (cases "msg_receive h in_msg")
     (auto simp: receive_message_def Let_def split: prod.splits)

lemma enumerate_entries_foldl:
  "enumerate_entries h es m w =
     foldl (\<lambda>(m, w) e. add_measurement h e m None w) (m, w) es"
  by (induction es arbitrary: m w) (simp_all split: prod.splits)

subsection \<open>The example host evaluated\<close>

lemma example_measurements:
  "fst (get_measurement example_host
          \<lparr>vendor_id = PEN_IETF, type = IETF_ATTR_PRODUCT_INFORMATION\<rparr> None) =
     Some (pa_tnc_attr \<lparr>vendor_id = PEN_IETF, type = IETF_ATTR_PRODUCT_INFORMATION\<rparr> [0x41])"
  "fst (get_measurement example_host
          \<lparr>vendor_id = PEN_IETF, type = IETF_ATTR_STRING_VERSION\<rparr> None) =
     Some (pa_tnc_attr \<lparr>vendor_id = PEN_IETF, type = IETF_ATTR_STRING_VERSION\<rparr>
             [0x34, 0x2e, 0x34])"
  "fst (get_measurement example_host \<lparr>vendor_id = 0x1234, type = 9999\<rparr> None) = None"
  by (simp_all add: get_measurement_def example_host_def example_provider_def
        pa_tnc_attr_manager_create_def PEN_IETF_def PEN_ITA_def
        IETF_ATTR_PRODUCT_INFORMATION_def IETF_ATTR_STRING_VERSION_def)

lemma example_receive_simps:
  "msg_receive example_host (inbound []) = (TNC_RESULT_FATAL, False, [])"
  "msg_receive example_host (inbound [0]) =
     (TNC_RESULT_SUCCESS, True, [pa_tnc_attr \<lparr>vendor_id = PEN_IETF, type = 8\<rparr> []])"
  "msg_receive example_host (inbound [1]) =
     (TNC_RESULT_SUCCESS, False,
      [ietf_attr_attr_request
         [\<lparr>vendor_id = PEN_IETF, type = IETF_ATTR_PRODUCT_INFORMATION\<rparr>,
          \<lparr>vendor_id = PEN_IETF, type = IETF_ATTR_STRING_VERSION\<rparr>,
          \<lparr>vendor_id = 0x1234, type = 9999\<rparr>]])"
  "msg_receive example_host (inbound [2]) =
     (TNC_RESULT_SUCCESS, False, [ita_attr_get_settings [''android_id'']])"
  by (simp_all add: example_host_def example_receive_def inbound_def)

subsection \<open>A message that holds one attribute request\<close>

lemma receive_message_attr_request:
  assumes parse: "msg_receive h in_msg = (TNC_RESULT_SUCCESS, False, [ietf_attr_attr_request entries])"
  shows "fst (receive_message h in_msg w) =
           msg_send h ((imc_msg_create_as_reply in_msg)
             \<lparr>msg_attributes := List.map_filter (\<lambda>e. fst (get_measurement h e None)) entries\<rparr>) True"
    and "sent (trace (snd (receive_message h in_msg w))) =
           sent (trace w) @
             [((imc_msg_create_as_reply in_msg)
                 \<lparr>msg_attributes := List.map_filter (\<lambda>e. fst (get_measurement h e None)) entries\<rparr>,
               True)]"
    and "diagnostics (trace (snd (receive_message h in_msg w))) =
           diagnostics (trace w) @
             map (\<lambda>e. if get_names h (vendor_id e) then no_measurement_named e
                      else no_measurement_unnamed e)
               (filter (\<lambda>e. fst (get_measurement h e None) = None) entries)"
proof -
  let ?w0 = "emit (receive in_msg) w"
  let ?r = "enumerate_entries h entries (imc_msg_create_as_reply in_msg) ?w0"
  have an: "analyze_attributes h [ietf_attr_attr_request entries]
              (imc_msg_create_as_reply in_msg) ?w0 = ?r"
    by (cases ?r) (simp add: handle_attribute_request)
  have m: "fst ?r = (imc_msg_create_as_reply in_msg)
             \<lparr>msg_attributes := List.map_filter (\<lambda>e. fst (get_measurement h e None)) entries\<rparr>"
    by (simp add: enumerate_entries_msg imc_msg_create_as_reply_def)
  have s: "sent (trace (snd ?r)) = sent (trace w)"
    by (simp add: enumerate_entries_sent emit_def)
  have d: "diagnostics (trace (snd ?r)) =
           diagnostics (trace w) @
             map (\<lambda>e. if get_names h (vendor_id e) then no_measurement_named e
                      else no_measurement_unnamed e)
               (filter (\<lambda>e. fst (get_measurement h e None) = None) entries)"
    by (simp add: enumerate_entries_diagnostics emit_def)
  show "fst (receive_message h in_msg w) =
           msg_send h ((imc_msg_create_as_reply in_msg)
             \<lparr>msg_attributes := List.map_filter (\<lambda>e. fst (get_measurement h e None)) entries\<rparr>) True"
    using parse an m by (simp add: receive_message_cases Let_def)
  show "sent (trace (snd (receive_message h in_msg w))) =
           sent (trace w) @
             [((imc_msg_create_as_reply in_msg)
                 \<lparr>msg_attributes := List.map_filter (\<lambda>e. fst (get_measurement h e None)) entries\<rparr>,
               True)]"
    using parse an m s by (simp add: receive_message_cases Let_def emit_def)
  show "diagnostics (trace (snd (receive_message h in_msg w))) =
           diagnostics (trace w) @
             map (\<lambda>e. if get_names h (vendor_id e) then no_measurement_named e
                      else no_measurement_unnamed e)
               (filter (\<lambda>e. fst (get_measurement h e None) = None) entries)"
    using parse an d by (simp add: receive_message_cases Let_def emit_def)
qed

subsection \<open>The entry points on an initialised and on an uninitialised collector\<close>

lemma connected_agent:
  "imc_android connected =
     Some \<lparr>agent_id = 1,
        connections = [7 \<mapsto> \<lparr>st_connection_id = 7,
                                 st_state = TNC_CONNECTION_STATE_CREATE,
                                 st_result = TNC_IMV_EVALUATION_RESULT_COMPLIANT\<rparr>]\<rparr>"
  by (simp add: connected_def)

lemma connected_states:
  "get_state \<lparr>agent_id = 1,
        connections = [7 \<mapsto> \<lparr>st_connection_id = 7,
                                 st_state = TNC_CONNECTION_STATE_CREATE,
                                 st_result = TNC_IMV_EVALUATION_RESULT_COMPLIANT\<rparr>]\<rparr> 7 =
      Some \<lparr>st_connection_id = 7, st_state = TNC_CONNECTION_STATE_CREATE,
            st_result = TNC_IMV_EVALUATION_RESULT_COMPLIANT\<rparr>"
  "get_state \<lparr>agent_id = 1,
        connections = [7 \<mapsto> \<lparr>st_connection_id = 7,
                                 st_state = TNC_CONNECTION_STATE_CREATE,
                                 st_result = TNC_IMV_EVALUATION_RESULT_COMPLIANT\<rparr>]\<rparr> 8 = None"
  by (simp_all add: get_state_def)

lemma BeginHandshake_cases:
  assumes init: "imc_android w = Some agent"
      and reg: "get_state agent connection_id = Some state"
  shows "TNC_IMC_BeginHandshake h imc_id connection_id w =
     (if get_bool h ''android.imc.send_os_info'' True
      then
        (let out_msg = imc_msg_create agent state connection_id imc_id TNC_IMVID_ANY (msg_types ! 0);
             r1 = add_measurement h
                    \<lparr>vendor_id = PEN_IETF, type = IETF_ATTR_PRODUCT_INFORMATION\<rparr> out_msg None w;
             r2 = add_measurement h
                    \<lparr>vendor_id = PEN_IETF, type = IETF_ATTR_STRING_VERSION\<rparr> (fst r1) None (snd r1)
         in (msg_send h (fst r2) False, emit (send (fst r2) False) (snd r2)))
      else (TNC_RESULT_SUCCESS, w))"
  using init reg
  by (simp add: TNC_IMC_BeginHandshake_def Let_def split: prod.splits)

lemma receive_message_imc_android:
  "imc_android (snd (receive_message h in_msg w)) = imc_android w"
  using analyze_attributes_keeps
          [of h "snd (snd (msg_receive h in_msg))" "imc_msg_create_as_reply in_msg"
              "emit (receive in_msg) w"]
  by (simp add: receive_message_cases Let_def emit_def)

lemma BeginHandshake_imc_android:
  "imc_android w \<noteq> None \<Longrightarrow>
   imc_android (snd (TNC_IMC_BeginHandshake h imc_id connection_id w)) \<noteq> None"
  by (auto simp: TNC_IMC_BeginHandshake_def Let_def emit_def add_measurement_imc_android
        split: option.splits prod.splits)
     (metis add_measurement_imc_android option.distinct(1) snd_conv)

lemma invoke_stays_initialized:
  assumes "imc_android w \<noteq> None" and "\<not> is_Terminate c"
  shows "imc_android (snd (invoke h c w)) \<noteq> None"
proof (cases c)
  case (Initialize i mn mx)
  with assms show ?thesis by (simp add: Initialize_cases emit_def)
next
  case (NotifyConnectionChange i cid s)
  with assms show ?thesis
    by (auto simp: TNC_IMC_NotifyConnectionChange_def Let_def
          split: option.splits TNC_ConnectionState.splits prod.splits)
next
  case (BeginHandshake i cid)
  with assms show ?thesis by (simp add: BeginHandshake_imc_android)
next
  case (ReceiveMessage i cid m t)
  with assms show ?thesis
    by (auto simp: TNC_IMC_ReceiveMessage_def receive_message_imc_android split: option.splits)
next
  case (ReceiveMessageLong i cid f m v s src dst)
  with assms show ?thesis
    by (auto simp: TNC_IMC_ReceiveMessageLong_def receive_message_imc_android
          split: option.splits)
next
  case (BatchEnding i cid)
  with assms show ?thesis by (auto simp: TNC_IMC_BatchEnding_def split: option.splits)
next
  case (Terminate i)
  with assms show ?thesis by simp
next
  case (ProvideBindFunction i b)
  with assms show ?thesis by (auto simp: TNC_IMC_ProvideBindFunction_def split: option.splits)
qed

lemma Terminate_cases:
  "TNC_IMC_Terminate h imc_id w =
     (if imc_android w = None
      then (TNC_RESULT_NOT_INITIALIZED, emit (DBG1 not_initialized) w)
      else (TNC_RESULT_SUCCESS,
            \<lparr>imc_android = None, trace = trace w @ [libpts_deinit, agent_destroy]\<rparr>))"
  by (cases w) (simp add: TNC_IMC_Terminate_def emit_def split: option.splits)

lemma invoke_uninitialized:
  assumes "imc_android w = None" and "\<not> is_Initialize c"
  shows "invoke h c w = (TNC_RESULT_NOT_INITIALIZED, emit (DBG1 not_initialized) w)"
  using assms
  by (cases c)
     (simp_all add: TNC_IMC_NotifyConnectionChange_def TNC_IMC_BeginHandshake_def
        TNC_IMC_ReceiveMessage_def TNC_IMC_ReceiveMessageLong_def TNC_IMC_BatchEnding_def
        TNC_IMC_Terminate_def TNC_IMC_ProvideBindFunction_def)

lemma run_uninitialized:
  assumes "imc_android w = None" and "\<forall>c \<in> set cs. \<not> is_Initialize c"
  shows "fst (run h cs w) = replicate (length cs) TNC_RESULT_NOT_INITIALIZED"
  using assms
proof (induction cs arbitrary: w)
  case Nil
  show ?case by simp
next
  case (Cons c cs)
  have step: "invoke h c w = (TNC_RESULT_NOT_INITIALIZED, emit (DBG1 not_initialized) w)"
    using Cons.prems by (simp add: invoke_uninitialized)
  have "imc_android (emit (DBG1 not_initialized) w) = None"
    using Cons.prems by (simp add: emit_def)
  then have "fst (run h cs (emit (DBG1 not_initialized) w)) =
               replicate (length cs) TNC_RESULT_NOT_INITIALIZED"
    using Cons.IH Cons.prems by simp
  then show ?case
    using step by (cases "run h cs (emit (DBG1 not_initialized) w)") simp
qed

lemma run_stays_initialized:
  assumes "imc_android w \<noteq> None"
      and "\<forall>k < length cs. is_Terminate (cs ! k) \<longrightarrow> fst (run h cs w) ! k \<noteq> TNC_RESULT_SUCCESS"
  shows "imc_android (snd (run h cs w)) \<noteq> None"
  using assms
proof (induction cs arbitrary: w)
  case Nil
  then show ?case by simp
next
  case (Cons c cs)
  obtain r w' where step: "invoke h c w = (r, w')"
    by (cases "invoke h c w")
  obtain rs w'' where rest: "run h cs w' = (rs, w'')"
    by (cases "run h cs w'")
  have results: "fst (run h (c # cs) w) = r # rs"
    using step rest by simp
  have no_term: "\<not> is_Terminate c"
  proof
    assume t: "is_Terminate c"
    then obtain j where c: "c = Terminate j" by (cases c) simp_all
    have "r = TNC_RESULT_SUCCESS"
      using step c Cons.prems(1) by (simp add: Terminate_cases)
    moreover have "fst (run h (c # cs) w) ! 0 \<noteq> TNC_RESULT_SUCCESS"
      using Cons.prems(2) t by auto
    ultimately show False
      using results by simp
  qed
  have init': "imc_android w' \<noteq> None"
    using invoke_stays_initialized [OF Cons.prems(1) no_term, of h] step by simp
  have later: "\<forall>k < length cs. is_Terminate (cs ! k) \<longrightarrow> fst (run h cs w') ! k \<noteq> TNC_RESULT_SUCCESS"
  proof (intro allI impI)
    fix k assume k: "k < length cs" and t: "is_Terminate (cs ! k)"
    have "fst (run h (c # cs) w) ! Suc k \<noteq> TNC_RESULT_SUCCESS"
      using Cons.prems(2) k t by auto
    then show "fst (run h cs w') ! k \<noteq> TNC_RESULT_SUCCESS"
      using results rest by simp
  qed
  show ?case
    using Cons.IH [OF init' later] step rest by simp
qed

lemma receive_message_result:
  "fst (receive_message h in_msg w) = fst (msg_receive h in_msg)
   \<or> fst (receive_message h in_msg w) = TNC_RESULT_FATAL
   \<or> (\<exists>m. fst (receive_message h in_msg w) = msg_send h m True)"
  by (auto simp: receive_message_cases Let_def)

lemma receive_message_passes_results:
  assumes "\<forall>m e. msg_send h m e \<noteq> TNC_RESULT_NOT_INITIALIZED"
      and "\<forall>m. fst (msg_receive h m) \<noteq> TNC_RESULT_NOT_INITIALIZED"
  shows "fst (receive_message h in_msg w) \<noteq> TNC_RESULT_NOT_INITIALIZED"
  using receive_message_result [of h in_msg w] assms by auto

lemma invoke_initialized_result:
  assumes init: "imc_android w \<noteq> None"
      and "\<not> is_Initialize c"
      and sending: "\<forall>m e. msg_send h m e \<noteq> TNC_RESULT_NOT_INITIALIZED"
      and parsing: "\<forall>m. fst (msg_receive h m) \<noteq> TNC_RESULT_NOT_INITIALIZED"
      and binding: "\<forall>b. agent_bind_functions h b \<noteq> TNC_RESULT_NOT_INITIALIZED"
  shows "fst (invoke h c w) \<noteq> TNC_RESULT_NOT_INITIALIZED"
proof (cases c)
  case (Initialize i mn mx)
  with assms show ?thesis by simp
next
  case (NotifyConnectionChange i cid s)
  with init show ?thesis
    by (auto simp: TNC_IMC_NotifyConnectionChange_def Let_def create_state_def change_state_def
          delete_state_def split: option.splits TNC_ConnectionState.splits prod.splits)
next
  case (BeginHandshake i cid)
  with init sending show ?thesis
    by (auto simp: TNC_IMC_BeginHandshake_def Let_def split: option.splits prod.splits)
next
  case (ReceiveMessage i cid m t)
  with init show ?thesis
    using receive_message_passes_results [OF sending parsing]
    by (auto simp: TNC_IMC_ReceiveMessage_def split: option.splits)
next
  case (ReceiveMessageLong i cid f m v s src dst)
  with init show ?thesis
    using receive_message_passes_results [OF sending parsing]
    by (auto simp: TNC_IMC_ReceiveMessageLong_def split: option.splits)
next
  case (BatchEnding i cid)
  with init show ?thesis by (auto simp: TNC_IMC_BatchEnding_def split: option.splits)
next
  case (Terminate i)
  with init show ?thesis by (auto simp: TNC_IMC_Terminate_def split: option.splits)
next
  case (ProvideBindFunction i b)
  with init binding show ?thesis
    by (auto simp: TNC_IMC_ProvideBindFunction_def split: option.splits)
qed

subsection \<open>The attribute loop as a fold, and the variant hosts evaluated\<close>

lemma analyze_attributes_foldl:
  "analyze_attributes h attrs m w =
     foldl (\<lambda>(m, w) attr. handle_attribute h attr m w) (m, w) attrs"
  by (induction attrs arbitrary: m w) (simp_all split: prod.splits)

lemma receive_message_foldl:
  assumes parse: "msg_receive h in_msg = (TNC_RESULT_SUCCESS, fatal_error, attrs)"
  shows "receive_message h in_msg w =
           (if fatal_error
            then (TNC_RESULT_FATAL,
                  snd (foldl (\<lambda>(m, w') attr. handle_attribute h attr m w')
                         (imc_msg_create_as_reply in_msg, emit (receive in_msg) w) attrs))
            else (msg_send h
                    (fst (foldl (\<lambda>(m, w') attr. handle_attribute h attr m w')
                            (imc_msg_create_as_reply in_msg, emit (receive in_msg) w) attrs)) True,
                  emit (send
                          (fst (foldl (\<lambda>(m, w') attr. handle_attribute h attr m w')
                                  (imc_msg_create_as_reply in_msg, emit (receive in_msg) w) attrs))
                          True)
                    (snd (foldl (\<lambda>(m, w') attr. handle_attribute h attr m w')
                            (imc_msg_create_as_reply in_msg, emit (receive in_msg) w) attrs))))"
  using parse
  by (simp add: receive_message_cases Let_def analyze_attributes_foldl)

lemma get_measurement_send_independent:
  "get_measurement (h\<lparr>msg_send := s\<rparr>) t a = get_measurement h t a"
  "get_measurement (h\<lparr>msg_receive := r\<rparr>) t a = get_measurement h t a"
  by (auto simp: get_measurement_def string_array_create_def split: option.splits)

lemma refusing_measurements:
  "fst (get_measurement two_pair_host
          \<lparr>vendor_id = PEN_IETF, type = IETF_ATTR_STRING_VERSION\<rparr> None) =
     Some (pa_tnc_attr \<lparr>vendor_id = PEN_IETF, type = IETF_ATTR_STRING_VERSION\<rparr>
             [0x34, 0x2e, 0x34])"
  "fst (get_measurement two_pair_host \<lparr>vendor_id = 0x1234, type = 9999\<rparr> None) = None"
  "fst (get_measurement refusing_host
          \<lparr>vendor_id = PEN_IETF, type = IETF_ATTR_PRODUCT_INFORMATION\<rparr> None) =
     Some (pa_tnc_attr \<lparr>vendor_id = PEN_IETF, type = IETF_ATTR_PRODUCT_INFORMATION\<rparr> [0x41])"
  "fst (get_measurement refusing_host
          \<lparr>vendor_id = PEN_IETF, type = IETF_ATTR_STRING_VERSION\<rparr> None) =
     Some (pa_tnc_attr \<lparr>vendor_id = PEN_IETF, type = IETF_ATTR_STRING_VERSION\<rparr>
             [0x34, 0x2e, 0x34])"
  "fst (get_measurement refusing_host \<lparr>vendor_id = 0x1234, type = 9999\<rparr> None) = None"
  by (simp_all add: two_pair_host_def refusing_host_def get_measurement_send_independent
        example_measurements)

lemma jni_failing_measurements:
  "fst (get_measurement jni_failing_host t None) = None"
  by (simp add: get_measurement_def jni_failing_host_def example_host_def split: option.splits)

lemma counterexample_parses:
  "msg_receive two_pair_host (inbound [1]) =
     (TNC_RESULT_SUCCESS, False,
      [ietf_attr_attr_request
         [\<lparr>vendor_id = PEN_IETF, type = IETF_ATTR_STRING_VERSION\<rparr>,
          \<lparr>vendor_id = 0x1234, type = 9999\<rparr>]])"
  "msg_receive refusing_host (inbound [1]) =
     (TNC_RESULT_SUCCESS, False,
      [ietf_attr_attr_request
         [\<lparr>vendor_id = PEN_IETF, type = IETF_ATTR_PRODUCT_INFORMATION\<rparr>,
          \<lparr>vendor_id = PEN_IETF, type = IETF_ATTR_STRING_VERSION\<rparr>,
          \<lparr>vendor_id = 0x1234, type = 9999\<rparr>]])"
  "msg_receive jni_failing_host (inbound [1]) =
     (TNC_RESULT_SUCCESS, False,
      [ietf_attr_attr_request
         [\<lparr>vendor_id = PEN_IETF, type = IETF_ATTR_PRODUCT_INFORMATION\<rparr>,
          \<lparr>vendor_id = PEN_IETF, type = IETF_ATTR_STRING_VERSION\<rparr>,
          \<lparr>vendor_id = 0x1234, type = 9999\<rparr>]])"
  using example_receive_simps(3)
  by (simp_all add: two_pair_host_def refusing_host_def jni_failing_host_def)

lemma counterexample_providers:
  "getMeasurement two_pair_host PEN_IETF IETF_ATTR_STRING_VERSION None = Some [0x34, 0x2e, 0x34]"
  "getMeasurement two_pair_host 0x1234 9999 None = None"
  "getMeasurement refusing_host PEN_IETF IETF_ATTR_PRODUCT_INFORMATION None = Some [0x41]"
  "getMeasurement refusing_host PEN_IETF IETF_ATTR_STRING_VERSION None = Some [0x34, 0x2e, 0x34]"
  "getMeasurement refusing_host 0x1234 9999 None = None"
  "getMeasurement jni_failing_host PEN_IETF IETF_ATTR_PRODUCT_INFORMATION None = Some [0x41]"
  "getMeasurement jni_failing_host PEN_IETF IETF_ATTR_STRING_VERSION None = Some [0x34, 0x2e, 0x34]"
  "getMeasurement jni_failing_host 0x1234 9999 None = None"
  by (simp_all add: two_pair_host_def refusing_host_def jni_failing_host_def example_host_def
        example_provider_def PEN_IETF_def PEN_ITA_def IETF_ATTR_PRODUCT_INFORMATION_def
        IETF_ATTR_STRING_VERSION_def)

lemma refusing_sends:
  "msg_send two_pair_host m excl = TNC_RESULT_FATAL"
  "msg_send refusing_host m excl = TNC_RESULT_FATAL"
  by (simp_all add: two_pair_host_def refusing_host_def)

lemma connected_trace: "trace connected = []"
  by (simp add: connected_def)

lemma mixed_host_simps:
  "msg_receive mixed_host m =
       (TNC_RESULT_SUCCESS, False,
        [pa_tnc_attr \<lparr>vendor_id = PEN_IETF, type = IETF_ATTR_PRODUCT_INFORMATION\<rparr> [0x41],
         ietf_attr_attr_request
           [\<lparr>vendor_id = PEN_IETF, type = IETF_ATTR_STRING_VERSION\<rparr>,
            \<lparr>vendor_id = 0x1234, type = 9999\<rparr>],
         pa_tnc_attr \<lparr>vendor_id = 0x1234, type = 1\<rparr> [],
         ita_attr_get_settings [''android_id'']])"
  "msg_send mixed_host m excl = TNC_RESULT_SUCCESS"
  "get_measurement mixed_host t a = get_measurement example_host t a"
  by (simp_all add: mixed_host_def get_measurement_send_independent) (simp add: example_host_def)

lemma example_settings:
  "fst (get_measurement example_host \<lparr>vendor_id = PEN_ITA, type = ITA_ATTR_SETTINGS\<rparr>
          (Some [''android_id''])) =
     Some (pa_tnc_attr \<lparr>vendor_id = PEN_ITA, type = ITA_ATTR_SETTINGS\<rparr> [0x01])"
  by (simp add: get_measurement_def string_array_create_def example_host_def
        example_provider_def pa_tnc_attr_manager_create_def PEN_IETF_def PEN_ITA_def)

lemma other_attribute_types:
  "get_type (pa_tnc_attr \<lparr>vendor_id = PEN_IETF, type = IETF_ATTR_PRODUCT_INFORMATION\<rparr> v)
     \<noteq> \<lparr>vendor_id = PEN_IETF, type = IETF_ATTR_ATTRIBUTE_REQUEST\<rparr>"
  "get_type (pa_tnc_attr \<lparr>vendor_id = PEN_IETF, type = IETF_ATTR_PRODUCT_INFORMATION\<rparr> v)
     \<noteq> \<lparr>vendor_id = PEN_ITA, type = ITA_ATTR_GET_SETTINGS\<rparr>"
  "get_type (pa_tnc_attr \<lparr>vendor_id = 0x1234, type = 1\<rparr> v)
     \<noteq> \<lparr>vendor_id = PEN_IETF, type = IETF_ATTR_ATTRIBUTE_REQUEST\<rparr>"
  "get_type (pa_tnc_attr \<lparr>vendor_id = 0x1234, type = 1\<rparr> v)
     \<noteq> \<lparr>vendor_id = PEN_ITA, type = ITA_ATTR_GET_SETTINGS\<rparr>"
  by (simp_all add: IETF_ATTR_PRODUCT_INFORMATION_def IETF_ATTR_ATTRIBUTE_REQUEST_def
        PEN_IETF_def PEN_ITA_def)

section \<open>Initialisation and the version check\<close>

text \<open>
  Claim C3 does not hold as stated: the source allocates the collector and initialises
  the measurement subsystem before it compares the versions, and the early return of
  the no-common-version branch releases nothing. With a host that can create the agent
  and the version range 2 to 3, the call returns no-common-version and
  \<^verbatim>\<open>imc_android\<close> is set afterwards.
\<close>

theorem Initialize_leaves_collector_allocated_counterexample:
  "fst (TNC_IMC_Initialize example_host 1 2 3 uninitialized) = TNC_RESULT_NO_COMMON_VERSION
   \<and> imc_android (snd (TNC_IMC_Initialize example_host 1 2 3 uninitialized)) \<noteq> None
   \<and> trace (snd (TNC_IMC_Initialize example_host 1 2 3 uninitialized)) =
       [libpts_init, DBG1 no_common_version]"
  by (simp add: Initialize_cases example_host_def uninitialized_def TNC_IFIMC_VERSION_1_def
        emit_def word_le_nat_alt)

text \<open>
  Claim C3, amended. On an uninitialised collector for which the agent can be created,
  \<^verbatim>\<open>TNC_IMC_Initialize\<close> returns no-common-version exactly when the range from
  \<open>min_version\<close> to \<open>max_version\<close> excludes version 1 and success exactly when it
  includes it; in both cases the collector state is allocated and the measurement
  subsystem initialised before the versions are compared, and they stay so. If the agent
  cannot be created the call returns fatal and changes nothing; on an initialised
  collector it returns already-initialised whatever the versions are.
\<close>

theorem Initialize_version_check:
  "(imc_android w = None \<and> agent_create_ok h imc_id \<longrightarrow>
      (fst (TNC_IMC_Initialize h imc_id min_version max_version w) = TNC_RESULT_NO_COMMON_VERSION
         \<longleftrightarrow> TNC_IFIMC_VERSION_1 \<notin> {min_version..max_version})
      \<and> (fst (TNC_IMC_Initialize h imc_id min_version max_version w) = TNC_RESULT_SUCCESS
         \<longleftrightarrow> TNC_IFIMC_VERSION_1 \<in> {min_version..max_version})
      \<and> imc_android (snd (TNC_IMC_Initialize h imc_id min_version max_version w)) =
          Some \<lparr>agent_id = imc_id, connections = Map.empty\<rparr>
      \<and> trace (snd (TNC_IMC_Initialize h imc_id min_version max_version w)) =
          trace w @ libpts_init #
            (if TNC_IFIMC_VERSION_1 \<in> {min_version..max_version} then []
             else [DBG1 no_common_version]))
   \<and> (imc_android w = None \<and> \<not> agent_create_ok h imc_id \<longrightarrow>
        TNC_IMC_Initialize h imc_id min_version max_version w = (TNC_RESULT_FATAL, w))
   \<and> (imc_android w \<noteq> None \<longrightarrow>
        fst (TNC_IMC_Initialize h imc_id min_version max_version w) =
          TNC_RESULT_ALREADY_INITIALIZED
        \<and> imc_android (snd (TNC_IMC_Initialize h imc_id min_version max_version w)) =
            imc_android w)"
  by (simp add: Initialize_cases emit_def)

theorem Initialize_version_check_witness:
  "fst (TNC_IMC_Initialize example_host 1 2 3 uninitialized) = TNC_RESULT_NO_COMMON_VERSION
   \<and> fst (TNC_IMC_Initialize example_host 1 0 1 uninitialized) = TNC_RESULT_SUCCESS
   \<and> imc_android (snd (TNC_IMC_Initialize example_host 1 2 3 uninitialized)) =
       Some \<lparr>agent_id = 1, connections = Map.empty\<rparr>
   \<and> imc_android (snd (TNC_IMC_Initialize example_host 1 0 1 uninitialized)) =
       Some \<lparr>agent_id = 1, connections = Map.empty\<rparr>
   \<and> TNC_IMC_Initialize (example_host\<lparr>agent_create_ok := (\<lambda>i. False)\<rparr>) 1 0 1 uninitialized =
       (TNC_RESULT_FATAL, uninitialized)
   \<and> fst (TNC_IMC_Initialize example_host 1 2 3
            (snd (TNC_IMC_Initialize example_host 1 0 1 uninitialized))) =
       TNC_RESULT_ALREADY_INITIALIZED"
proof -
  have none: "imc_android uninitialized = None"
    by (simp add: uninitialized_def)
  have ok: "agent_create_ok example_host 1"
    by (simp add: example_host_def)
  have no: "\<not> agent_create_ok (example_host\<lparr>agent_create_ok := (\<lambda>i. False)\<rparr>) 1"
    by simp
  have excl: "TNC_IFIMC_VERSION_1 \<notin> {2..3}" and incl: "TNC_IFIMC_VERSION_1 \<in> {0..1}"
    by (simp_all add: TNC_IFIMC_VERSION_1_def word_le_nat_alt)
  note a = Initialize_version_check [of uninitialized example_host 1 2 3]
  note b = Initialize_version_check [of uninitialized example_host 1 0 1]
  note c = Initialize_version_check
             [of uninitialized "example_host\<lparr>agent_create_ok := (\<lambda>i. False)\<rparr>" 1 0 1]
  have init: "imc_android (snd (TNC_IMC_Initialize example_host 1 0 1 uninitialized)) \<noteq> None"
    using b none ok by simp
  note d = Initialize_version_check
             [of "snd (TNC_IMC_Initialize example_host 1 0 1 uninitialized)" example_host 1 2 3]
  show ?thesis
    using a b c d none ok no excl incl init by simp
qed

section \<open>Replies to inbound messages\<close>

text \<open>
  Claim C2 does not hold as stated: \<^verbatim>\<open>receive_message\<close> returns the result of the
  parse as soon as that result is not success, whatever the fatal-error flag says. For
  the empty buffer the parser of the example host reports a fatal result and leaves the
  flag unset; no reply is sent although no fatal error is flagged.
\<close>

theorem no_reply_without_fatal_flag_counterexample:
  "\<not> fst (snd (msg_receive example_host (inbound [])))
   \<and> sent (trace (snd (receive_message example_host (inbound []) connected))) = []
   \<and> fst (receive_message example_host (inbound []) connected) = TNC_RESULT_FATAL"
  by (simp add: receive_message_cases example_receive_simps Let_def emit_def connected_def)

text \<open>
  Claim C2, amended. For every inbound message: if the parse returns a result other than
  success, \<^verbatim>\<open>receive_message\<close> returns that result and sends nothing; if the parse
  returns success with the fatal-error flag set, no reply is sent and the result is
  fatal; if the parse returns success with the flag unset, exactly one message is sent,
  with the exclusive flag true, it is the reply correlated to the inbound message (same
  connection, sender and recipient swapped), and the result is that of the send.
\<close>

theorem receive_message_reply:
  assumes parse: "msg_receive h in_msg = (result, fatal_error, attrs)"
  shows
    "(result \<noteq> TNC_RESULT_SUCCESS \<longrightarrow>
        fst (receive_message h in_msg w) = result
        \<and> sent (trace (snd (receive_message h in_msg w))) = sent (trace w))
     \<and> (result = TNC_RESULT_SUCCESS \<and> fatal_error \<longrightarrow>
        fst (receive_message h in_msg w) = TNC_RESULT_FATAL
        \<and> sent (trace (snd (receive_message h in_msg w))) = sent (trace w))
     \<and> (result = TNC_RESULT_SUCCESS \<and> \<not> fatal_error \<longrightarrow>
        sent (trace (snd (receive_message h in_msg w))) =
          sent (trace w) @
            [(fst (analyze_attributes h attrs (imc_msg_create_as_reply in_msg)
                     (emit (receive in_msg) w)), True)]
        \<and> fst (receive_message h in_msg w) =
            msg_send h (fst (analyze_attributes h attrs (imc_msg_create_as_reply in_msg)
                               (emit (receive in_msg) w))) True
        \<and> msg_connection_id (fst (analyze_attributes h attrs (imc_msg_create_as_reply in_msg)
                                     (emit (receive in_msg) w))) = msg_connection_id in_msg
        \<and> msg_src_id (fst (analyze_attributes h attrs (imc_msg_create_as_reply in_msg)
                              (emit (receive in_msg) w))) = msg_dst_id in_msg
        \<and> msg_dst_id (fst (analyze_attributes h attrs (imc_msg_create_as_reply in_msg)
                              (emit (receive in_msg) w))) = msg_src_id in_msg)"
proof -
  let ?w0 = "emit (receive in_msg) w"
  let ?r = "analyze_attributes h attrs (imc_msg_create_as_reply in_msg) ?w0"
  have keeps: "sent (trace (snd ?r)) = sent (trace ?w0)"
    "msg_connection_id (fst ?r) = msg_connection_id (imc_msg_create_as_reply in_msg)"
    "msg_src_id (fst ?r) = msg_src_id (imc_msg_create_as_reply in_msg)"
    "msg_dst_id (fst ?r) = msg_dst_id (imc_msg_create_as_reply in_msg)"
    using analyze_attributes_keeps [of h attrs "imc_msg_create_as_reply in_msg" ?w0] by simp_all
  have w0: "sent (trace ?w0) = sent (trace w)"
    by (simp add: emit_def)
  show ?thesis
    using parse keeps w0
    by (simp add: receive_message_cases Let_def emit_def imc_msg_create_as_reply_def)
qed

theorem receive_message_reply_witness:
  "fst (receive_message example_host (inbound []) connected) = TNC_RESULT_FATAL
   \<and> sent (trace (snd (receive_message example_host (inbound []) connected))) = []
   \<and> fst (receive_message example_host (inbound [0]) connected) = TNC_RESULT_FATAL
   \<and> sent (trace (snd (receive_message example_host (inbound [0]) connected))) = []
   \<and> fst (receive_message example_host (inbound [2]) connected) = TNC_RESULT_SUCCESS
   \<and> map snd (sent (trace (snd (receive_message example_host (inbound [2]) connected)))) = [True]"
  using receive_message_reply [OF example_receive_simps(1), of connected]
        receive_message_reply [OF example_receive_simps(2), of connected]
        receive_message_reply [OF example_receive_simps(4), of connected]
  by (simp add: connected_def example_host_def)

text \<open>
  Claim C1 does not hold as stated, for two reasons. The result of the call is the result
  of sending the reply: on a host that refuses the reply the call returns fatal, although
  the provider misses exactly one of the two requested measurements and the reply holds
  the other. And what enters the reply is what \<^verbatim>\<open>get_measurement\<close> returns, which is
  less than what the provider returns when a JNI call fails: on a host where
  \<^verbatim>\<open>GetByteArrayElements\<close> returns null the provider has data for two of the three
  requested types and the reply holds no attribute.
\<close>

theorem refused_reply_counterexample:
  "getMeasurement two_pair_host PEN_IETF IETF_ATTR_STRING_VERSION None \<noteq> None
   \<and> getMeasurement two_pair_host 0x1234 9999 None = None
   \<and> map (length \<circ> msg_attributes \<circ> fst)
         (sent (trace (snd (receive_message two_pair_host (inbound [1]) connected)))) = [1]
   \<and> fst (receive_message two_pair_host (inbound [1]) connected) = TNC_RESULT_FATAL
   \<and> getMeasurement jni_failing_host PEN_IETF IETF_ATTR_PRODUCT_INFORMATION None \<noteq> None
   \<and> getMeasurement jni_failing_host PEN_IETF IETF_ATTR_STRING_VERSION None \<noteq> None
   \<and> getMeasurement jni_failing_host 0x1234 9999 None = None
   \<and> map (length \<circ> msg_attributes \<circ> fst)
         (sent (trace (snd (receive_message jni_failing_host (inbound [1]) connected)))) = [0]"
  using receive_message_attr_request(1,2) [OF counterexample_parses(1), of connected]
        receive_message_attr_request(2) [OF counterexample_parses(3), of connected]
  by (simp add: counterexample_providers refusing_measurements jni_failing_measurements
        connected_trace refusing_sends)

text \<open>
  Claim C1, amended. An inbound message parses, with result success and without fatal
  error, into one attribute request that lists N pairs, and \<^verbatim>\<open>get_measurement\<close> (the
  answer of the provider as it comes through the JNI calls) yields no attribute for
  exactly one of the listed pairs. Then \<^verbatim>\<open>receive_message\<close> sends one reply, exclusive,
  whose attributes are the measurements of the other pairs in the order of the request,
  N - 1 in number; the missing one costs one diagnostic naming its type and does not stop
  the handling of the others. The call returns the result of sending that reply, which
  is success when the host accepts it.
\<close>

theorem one_missing_measurement_is_skipped:
  assumes parse: "msg_receive h in_msg = (TNC_RESULT_SUCCESS, False, [ietf_attr_attr_request entries])"
      and one: "length (filter (\<lambda>e. fst (get_measurement h e None) = None) entries) = 1"
  shows "sent (trace (snd (receive_message h in_msg w))) =
           sent (trace w) @
             [((imc_msg_create_as_reply in_msg)
                 \<lparr>msg_attributes := List.map_filter (\<lambda>e. fst (get_measurement h e None)) entries\<rparr>,
               True)]
         \<and> Suc (length (List.map_filter (\<lambda>e. fst (get_measurement h e None)) entries)) =
             length entries
         \<and> fst (receive_message h in_msg w) =
             msg_send h ((imc_msg_create_as_reply in_msg)
               \<lparr>msg_attributes := List.map_filter (\<lambda>e. fst (get_measurement h e None)) entries\<rparr>)
               True
         \<and> diagnostics (trace (snd (receive_message h in_msg w))) =
             diagnostics (trace w) @
               map (\<lambda>e. if get_names h (vendor_id e) then no_measurement_named e
                        else no_measurement_unnamed e)
                 (filter (\<lambda>e. fst (get_measurement h e None) = None) entries)
         \<and> length (diagnostics (trace (snd (receive_message h in_msg w)))) =
             Suc (length (diagnostics (trace w)))"
proof -
  note r = receive_message_attr_request [OF parse, of w]
  have n: "Suc (length (List.map_filter (\<lambda>e. fst (get_measurement h e None)) entries)) =
             length entries"
    using map_filter_length [of "\<lambda>e. fst (get_measurement h e None)" entries] one by simp
  show ?thesis
    using r n one by simp
qed

theorem one_missing_measurement_is_skipped_witness:
  "sent (trace (snd (receive_message example_host (inbound [1]) connected))) =
     [((imc_msg_create_as_reply (inbound [1]))
         \<lparr>msg_attributes :=
            [pa_tnc_attr \<lparr>vendor_id = PEN_IETF, type = IETF_ATTR_PRODUCT_INFORMATION\<rparr> [0x41],
             pa_tnc_attr \<lparr>vendor_id = PEN_IETF, type = IETF_ATTR_STRING_VERSION\<rparr>
               [0x34, 0x2e, 0x34]]\<rparr>, True)]
   \<and> fst (receive_message example_host (inbound [1]) connected) = TNC_RESULT_SUCCESS
   \<and> diagnostics (trace (snd (receive_message example_host (inbound [1]) connected))) =
       [no_measurement_unnamed \<lparr>vendor_id = 0x1234, type = 9999\<rparr>]"
proof -
  have one: "length (filter (\<lambda>e. fst (get_measurement example_host e None) = None)
               [\<lparr>vendor_id = PEN_IETF, type = IETF_ATTR_PRODUCT_INFORMATION\<rparr>,
                \<lparr>vendor_id = PEN_IETF, type = IETF_ATTR_STRING_VERSION\<rparr>,
                \<lparr>vendor_id = 0x1234, type = 9999\<rparr>]) = 1"
    by (simp add: example_measurements)
  have accepted: "msg_send example_host m True = TNC_RESULT_SUCCESS" for m
    by (simp add: example_host_def)
  have names: "\<not> get_names example_host 0x1234"
    by (simp add: example_host_def PEN_IETF_def PEN_ITA_def)
  show ?thesis
    using one_missing_measurement_is_skipped
            [OF example_receive_simps(3) one, of connected] names accepted
    by (simp add: example_measurements connected_def)
qed

text \<open>
  Claim C7 does not hold as stated: the result code is that of sending the reply. On the
  host that refuses the reply, with the scenario's request and with provider data for
  the first two types and none for the third, the reply holds the two attributes in
  order and the call returns fatal.
\<close>

theorem refused_scenario_counterexample:
  "getMeasurement refusing_host PEN_IETF IETF_ATTR_PRODUCT_INFORMATION None = Some [0x41]
   \<and> getMeasurement refusing_host PEN_IETF IETF_ATTR_STRING_VERSION None = Some [0x34, 0x2e, 0x34]
   \<and> getMeasurement refusing_host 0x1234 9999 None = None
   \<and> map (map get_type \<circ> msg_attributes \<circ> fst)
         (sent (trace (snd (receive_message refusing_host (inbound [1]) connected)))) =
       [[\<lparr>vendor_id = PEN_IETF, type = IETF_ATTR_PRODUCT_INFORMATION\<rparr>,
         \<lparr>vendor_id = PEN_IETF, type = IETF_ATTR_STRING_VERSION\<rparr>]]
   \<and> fst (receive_message refusing_host (inbound [1]) connected) = TNC_RESULT_FATAL"
  using receive_message_attr_request(1,2) [OF counterexample_parses(2), of connected]
  by (simp add: counterexample_providers refusing_measurements connected_trace refusing_sends)

text \<open>
  Claim C7, amended. The inbound message parses, with result success and without fatal
  error, into one attribute request listing product information, string version and
  type 9999 of some vendor, in that order; \<^verbatim>\<open>get_measurement\<close> yields an attribute for
  each of the first two and none for the third. The reply then holds exactly the two
  attributes, typed product information and string version, in that order; the result
  code is that of sending this reply, which is success when the host accepts it.
\<close>

theorem attribute_request_scenario:
  assumes parse: "msg_receive h in_msg =
            (TNC_RESULT_SUCCESS, False,
             [ietf_attr_attr_request
                [\<lparr>vendor_id = PEN_IETF, type = IETF_ATTR_PRODUCT_INFORMATION\<rparr>,
                 \<lparr>vendor_id = PEN_IETF, type = IETF_ATTR_STRING_VERSION\<rparr>,
                 \<lparr>vendor_id = vendor_x, type = 9999\<rparr>]])"
      and product: "fst (get_measurement h
                      \<lparr>vendor_id = PEN_IETF, type = IETF_ATTR_PRODUCT_INFORMATION\<rparr> None) = Some a1"
      and version: "fst (get_measurement h
                      \<lparr>vendor_id = PEN_IETF, type = IETF_ATTR_STRING_VERSION\<rparr> None) = Some a2"
      and unavailable: "fst (get_measurement h \<lparr>vendor_id = vendor_x, type = 9999\<rparr> None) = None"
  shows "sent (trace (snd (receive_message h in_msg w))) =
           sent (trace w) @ [((imc_msg_create_as_reply in_msg)\<lparr>msg_attributes := [a1, a2]\<rparr>, True)]
         \<and> map get_type [a1, a2] =
             [\<lparr>vendor_id = PEN_IETF, type = IETF_ATTR_PRODUCT_INFORMATION\<rparr>,
              \<lparr>vendor_id = PEN_IETF, type = IETF_ATTR_STRING_VERSION\<rparr>]
         \<and> fst (receive_message h in_msg w) =
             msg_send h ((imc_msg_create_as_reply in_msg)\<lparr>msg_attributes := [a1, a2]\<rparr>) True"
proof -
  have attrs: "List.map_filter (\<lambda>e. fst (get_measurement h e None))
                 [\<lparr>vendor_id = PEN_IETF, type = IETF_ATTR_PRODUCT_INFORMATION\<rparr>,
                  \<lparr>vendor_id = PEN_IETF, type = IETF_ATTR_STRING_VERSION\<rparr>,
                  \<lparr>vendor_id = vendor_x, type = 9999\<rparr>] = [a1, a2]"
    using product version unavailable by simp
  have types: "get_type a1 = \<lparr>vendor_id = PEN_IETF, type = IETF_ATTR_PRODUCT_INFORMATION\<rparr>"
    "get_type a2 = \<lparr>vendor_id = PEN_IETF, type = IETF_ATTR_STRING_VERSION\<rparr>"
    using product version by (simp_all add: get_measurement_type)
  show ?thesis
    using receive_message_attr_request(1,2) [OF parse, of w] attrs types by simp
qed

theorem attribute_request_scenario_witness:
  "sent (trace (snd (receive_message example_host (inbound [1]) uninitialized))) =
     [((imc_msg_create_as_reply (inbound [1]))
         \<lparr>msg_attributes :=
            [pa_tnc_attr \<lparr>vendor_id = PEN_IETF, type = IETF_ATTR_PRODUCT_INFORMATION\<rparr> [0x41],
             pa_tnc_attr \<lparr>vendor_id = PEN_IETF, type = IETF_ATTR_STRING_VERSION\<rparr>
               [0x34, 0x2e, 0x34]]\<rparr>, True)]
   \<and> fst (receive_message example_host (inbound [1]) uninitialized) = TNC_RESULT_SUCCESS"
proof -
  have accepted: "msg_send example_host m True = TNC_RESULT_SUCCESS" for m
    by (simp add: example_host_def)
  show ?thesis
    using attribute_request_scenario
            [OF example_receive_simps(3) example_measurements, of uninitialized] accepted
    by (simp add: uninitialized_def)
qed

text \<open>
  Claim C5. For an inbound message whose parse returns success, \<^verbatim>\<open>receive_message\<close>
  passes every attribute of the message, one after the other in the order of the
  message, through the \<^verbatim>\<open>switch\<close> on the vendor id, starting from the empty correlated
  reply; the reply it sends, or drops when the fatal-error flag is set, is what this
  leaves. In that switch, which tests the vendor id first and the type second, an IETF
  attribute request has the effect of one \<^verbatim>\<open>add_measurement\<close> call per listed pair, in
  order, each without arguments; an ITA get-settings attribute has the effect of one
  \<^verbatim>\<open>add_measurement\<close> call for the ITA settings type whose arguments are the setting
  names of the attribute; an attribute of any other type, of these vendors or of another,
  changes neither the reply nor anything else.
\<close>

theorem attribute_dispatch:
  "(msg_receive h in_msg = (TNC_RESULT_SUCCESS, fatal_error, attrs) \<longrightarrow>
      receive_message h in_msg w =
        (if fatal_error
         then (TNC_RESULT_FATAL,
               snd (foldl (\<lambda>(m, w') attr. handle_attribute h attr m w')
                      (imc_msg_create_as_reply in_msg, emit (receive in_msg) w) attrs))
         else (msg_send h
                 (fst (foldl (\<lambda>(m, w') attr. handle_attribute h attr m w')
                         (imc_msg_create_as_reply in_msg, emit (receive in_msg) w) attrs)) True,
               emit (send
                       (fst (foldl (\<lambda>(m, w') attr. handle_attribute h attr m w')
                               (imc_msg_create_as_reply in_msg, emit (receive in_msg) w) attrs))
                       True)
                 (snd (foldl (\<lambda>(m, w') attr. handle_attribute h attr m w')
                         (imc_msg_create_as_reply in_msg, emit (receive in_msg) w) attrs)))))
   \<and> handle_attribute h (ietf_attr_attr_request entries) out_msg w =
       foldl (\<lambda>(m, w') entry. add_measurement h entry m None w') (out_msg, w) entries
   \<and> handle_attribute h (ita_attr_get_settings names) out_msg w =
       add_measurement h \<lparr>vendor_id = PEN_ITA, type = ITA_ATTR_SETTINGS\<rparr> out_msg (Some names) w
   \<and> (get_type attr \<noteq> \<lparr>vendor_id = PEN_IETF, type = IETF_ATTR_ATTRIBUTE_REQUEST\<rparr>
        \<and> get_type attr \<noteq> \<lparr>vendor_id = PEN_ITA, type = ITA_ATTR_GET_SETTINGS\<rparr>
      \<longrightarrow> handle_attribute h attr out_msg w = (out_msg, w))"
  using handle_attribute_other [of attr h out_msg w]
        receive_message_foldl [of h in_msg fatal_error attrs w]
  by (simp add: handle_attribute_request handle_attribute_get_settings enumerate_entries_foldl)

theorem attribute_dispatch_witness:
  "sent (trace (snd (receive_message mixed_host (inbound [1]) connected))) =
     [((imc_msg_create_as_reply (inbound [1]))
         \<lparr>msg_attributes :=
            [pa_tnc_attr \<lparr>vendor_id = PEN_IETF, type = IETF_ATTR_STRING_VERSION\<rparr>
               [0x34, 0x2e, 0x34],
             pa_tnc_attr \<lparr>vendor_id = PEN_ITA, type = ITA_ATTR_SETTINGS\<rparr> [0x01]]\<rparr>, True)]
   \<and> fst (receive_message mixed_host (inbound [1]) connected) = TNC_RESULT_SUCCESS
   \<and> handle_attribute example_host
        (pa_tnc_attr \<lparr>vendor_id = PEN_IETF, type = IETF_ATTR_PRODUCT_INFORMATION\<rparr> [0x41])
        (imc_msg_create_as_reply (inbound [1])) uninitialized =
       (imc_msg_create_as_reply (inbound [1]), uninitialized)
   \<and> handle_attribute example_host (pa_tnc_attr \<lparr>vendor_id = 0x1234, type = 1\<rparr> [])
        (imc_msg_create_as_reply (inbound [1])) uninitialized =
       (imc_msg_create_as_reply (inbound [1]), uninitialized)"
proof -
  let ?m0 = "imc_msg_create_as_reply (inbound [1])"
  let ?w0 = "emit (receive (inbound [1])) connected"
  let ?es = "[\<lparr>vendor_id = PEN_IETF, type = IETF_ATTR_STRING_VERSION\<rparr>,
              \<lparr>vendor_id = 0x1234, type = 9999\<rparr>]"
  let ?p = "pa_tnc_attr \<lparr>vendor_id = PEN_IETF, type = IETF_ATTR_PRODUCT_INFORMATION\<rparr> [0x41]"
  let ?o = "pa_tnc_attr \<lparr>vendor_id = 0x1234, type = 1\<rparr> []"
  note whole = attribute_dispatch
      [of mixed_host "inbound [1]" False
          "[?p, ietf_attr_attr_request ?es, ?o, ita_attr_get_settings [''android_id'']]"
          connected]
  note first = attribute_dispatch [of mixed_host _ _ _ ?w0 ?es ?m0 "[''android_id'']" ?p]
  note third = attribute_dispatch [of mixed_host _ _ _ ?w0 ?es ?m0 "[''android_id'']" ?o]
  have h1: "handle_attribute mixed_host ?p ?m0 ?w0 = (?m0, ?w0)"
    using first other_attribute_types(1,2) by blast
  have h2: "handle_attribute mixed_host (ietf_attr_attr_request ?es) ?m0 ?w0 =
              enumerate_entries mixed_host ?es ?m0 ?w0"
    using first by (simp only: enumerate_entries_foldl)
  obtain m2 w2 where r2: "enumerate_entries mixed_host ?es ?m0 ?w0 = (m2, w2)"
    by (cases "enumerate_entries mixed_host ?es ?m0 ?w0")
  have m2: "m2 = ?m0\<lparr>msg_attributes :=
              [pa_tnc_attr \<lparr>vendor_id = PEN_IETF, type = IETF_ATTR_STRING_VERSION\<rparr>
                 [0x34, 0x2e, 0x34]]\<rparr>"
    using enumerate_entries_msg [of mixed_host ?es ?m0 ?w0] r2
    by (simp add: mixed_host_simps example_measurements imc_msg_create_as_reply_def)
  have s2: "sent (trace w2) = []"
    using enumerate_entries_sent [of mixed_host ?es ?m0 ?w0] r2
    by (simp add: emit_def connected_trace)
  note third' = attribute_dispatch [of mixed_host _ _ _ w2 ?es m2 "[''android_id'']" ?o]
  have h3: "handle_attribute mixed_host ?o m2 w2 = (m2, w2)"
    using third' other_attribute_types(3,4) by blast
  have h4: "handle_attribute mixed_host (ita_attr_get_settings [''android_id'']) m2 w2 =
              add_measurement mixed_host \<lparr>vendor_id = PEN_ITA, type = ITA_ATTR_SETTINGS\<rparr> m2
                (Some [''android_id'']) w2"
    using third' by blast
  obtain m4 w4 where r4: "add_measurement mixed_host \<lparr>vendor_id = PEN_ITA, type = ITA_ATTR_SETTINGS\<rparr>
                m2 (Some [''android_id'']) w2 = (m4, w4)"
    by (cases "add_measurement mixed_host \<lparr>vendor_id = PEN_ITA, type = ITA_ATTR_SETTINGS\<rparr>
                m2 (Some [''android_id'']) w2")
  have m4: "m4 = ?m0\<lparr>msg_attributes :=
              [pa_tnc_attr \<lparr>vendor_id = PEN_IETF, type = IETF_ATTR_STRING_VERSION\<rparr>
                 [0x34, 0x2e, 0x34],
               pa_tnc_attr \<lparr>vendor_id = PEN_ITA, type = ITA_ATTR_SETTINGS\<rparr> [0x01]]\<rparr>"
    using add_measurement_msg [of mixed_host "\<lparr>vendor_id = PEN_ITA, type = ITA_ATTR_SETTINGS\<rparr>"
            m2 "Some [''android_id'']" w2] r4 m2
    by (simp add: mixed_host_simps example_settings)
  have s4: "sent (trace w4) = []"
    using add_measurement_sent [of mixed_host "\<lparr>vendor_id = PEN_ITA, type = ITA_ATTR_SETTINGS\<rparr>"
            m2 "Some [''android_id'']" w2] r4 s2
    by simp
  have fold: "foldl (\<lambda>(m, w') attr. handle_attribute mixed_host attr m w') (?m0, ?w0)
                [?p, ietf_attr_attr_request ?es, ?o, ita_attr_get_settings [''android_id'']] =
              (m4, w4)"
    by (simp only: foldl.simps prod.case h1 h2 r2 h3 h4 r4)
  have result: "receive_message mixed_host (inbound [1]) connected =
                  (TNC_RESULT_SUCCESS, emit (send m4 True) w4)"
    using whole fold by (simp add: mixed_host_simps)
  note alone1 = attribute_dispatch [of example_host _ _ _ uninitialized ?es ?m0 "[]" ?p]
  note alone2 = attribute_dispatch [of example_host _ _ _ uninitialized ?es ?m0 "[]" ?o]
  have a1: "handle_attribute example_host ?p ?m0 uninitialized = (?m0, uninitialized)"
    using alone1 other_attribute_types(1,2) by blast
  have a2: "handle_attribute example_host ?o ?m0 uninitialized = (?m0, uninitialized)"
    using alone2 other_attribute_types(3,4) by blast
  show ?thesis
    using result m4 s4 a1 a2 by (simp add: emit_def)
qed

section \<open>Connection notifications and the start of the handshake\<close>

text \<open>
  Claim C6. On an initialised collector, \<^verbatim>\<open>TNC_IMC_NotifyConnectionChange\<close> with the
  handshake state, for a connection id that has a state record, returns success; the
  record of that connection afterwards has the handshake state and the evaluation
  result "don't know", whatever result it held before, and no other record has changed.
  If the registry has no record for the id, its transition fails: the call returns
  fatal and nothing is set.
\<close>

theorem handshake_seeds_evaluation_result:
  assumes init: "imc_android w = Some agent"
  shows
    "(get_state agent connection_id = Some state \<longrightarrow>
        fst (TNC_IMC_NotifyConnectionChange h imc_id connection_id
               TNC_CONNECTION_STATE_HANDSHAKE w) = TNC_RESULT_SUCCESS
        \<and> map_option connections
             (imc_android (snd (TNC_IMC_NotifyConnectionChange h imc_id connection_id
                                  TNC_CONNECTION_STATE_HANDSHAKE w))) =
            Some ((connections agent)(connection_id \<mapsto>
                    state\<lparr>st_state := TNC_CONNECTION_STATE_HANDSHAKE,
                          st_result := TNC_IMV_EVALUATION_RESULT_DONT_KNOW\<rparr>))
        \<and> trace (snd (TNC_IMC_NotifyConnectionChange h imc_id connection_id
                         TNC_CONNECTION_STATE_HANDSHAKE w)) = trace w)
     \<and> (get_state agent connection_id = None \<longrightarrow>
        TNC_IMC_NotifyConnectionChange h imc_id connection_id
          TNC_CONNECTION_STATE_HANDSHAKE w = (TNC_RESULT_FATAL, w))"
  using init
  by (auto simp: TNC_IMC_NotifyConnectionChange_def change_state_def get_state_def
        through_state_pointer_def set_result_def)

theorem handshake_seeds_evaluation_result_witness:
  "fst (TNC_IMC_NotifyConnectionChange example_host 1 7 TNC_CONNECTION_STATE_HANDSHAKE connected)
     = TNC_RESULT_SUCCESS
   \<and> map_option (\<lambda>a. connections a 7)
        (imc_android (snd (TNC_IMC_NotifyConnectionChange example_host 1 7
                             TNC_CONNECTION_STATE_HANDSHAKE connected))) =
       Some (Some \<lparr>st_connection_id = 7, st_state = TNC_CONNECTION_STATE_HANDSHAKE,
                   st_result = TNC_IMV_EVALUATION_RESULT_DONT_KNOW\<rparr>)
   \<and> TNC_IMC_NotifyConnectionChange example_host 1 8 TNC_CONNECTION_STATE_HANDSHAKE connected =
       (TNC_RESULT_FATAL, connected)"
proof -
  have reg: "get_state \<lparr>agent_id = 1,
        connections = [7 \<mapsto> \<lparr>st_connection_id = 7,
                                 st_state = TNC_CONNECTION_STATE_CREATE,
                                 st_result = TNC_IMV_EVALUATION_RESULT_COMPLIANT\<rparr>]\<rparr> 7 =
      Some \<lparr>st_connection_id = 7, st_state = TNC_CONNECTION_STATE_CREATE,
            st_result = TNC_IMV_EVALUATION_RESULT_COMPLIANT\<rparr>"
    by (simp add: get_state_def)
  have unreg: "get_state \<lparr>agent_id = 1,
        connections = [7 \<mapsto> \<lparr>st_connection_id = 7,
                                 st_state = TNC_CONNECTION_STATE_CREATE,
                                 st_result = TNC_IMV_EVALUATION_RESULT_COMPLIANT\<rparr>]\<rparr> 8 = None"
    by (simp add: get_state_def)
  note a = handshake_seeds_evaluation_result [OF connected_agent, of 7
      "\<lparr>st_connection_id = 7, st_state = TNC_CONNECTION_STATE_CREATE,
            st_result = TNC_IMV_EVALUATION_RESULT_COMPLIANT\<rparr>" example_host 1]
  note b = handshake_seeds_evaluation_result [OF connected_agent, of 8 _ example_host 1]
  have "map_option connections
        (imc_android (snd (TNC_IMC_NotifyConnectionChange example_host 1 7
                             TNC_CONNECTION_STATE_HANDSHAKE connected))) =
       Some ([7 \<mapsto> \<lparr>st_connection_id = 7, st_state = TNC_CONNECTION_STATE_HANDSHAKE,
                   st_result = TNC_IMV_EVALUATION_RESULT_DONT_KNOW\<rparr>])"
    using a reg by simp
  then have "map_option (\<lambda>a. connections a 7)
        (imc_android (snd (TNC_IMC_NotifyConnectionChange example_host 1 7
                             TNC_CONNECTION_STATE_HANDSHAKE connected))) =
       Some (Some \<lparr>st_connection_id = 7, st_state = TNC_CONNECTION_STATE_HANDSHAKE,
                   st_result = TNC_IMV_EVALUATION_RESULT_DONT_KNOW\<rparr>)"
    by (cases "imc_android (snd (TNC_IMC_NotifyConnectionChange example_host 1 7
                             TNC_CONNECTION_STATE_HANDSHAKE connected))") auto
  then show ?thesis
    using a b reg unreg by simp
qed

text \<open>
  Claim C8. On an initialised collector and for a connection id that has a state record:
  if the setting \<^verbatim>\<open>android.imc.send_os_info\<close> is false, \<^verbatim>\<open>TNC_IMC_BeginHandshake\<close>
  returns success and does nothing, so nothing is sent and no measurement is asked for;
  otherwise (the setting is true, or absent and so defaults to true) it sends exactly one
  message, with the exclusive flag false: the message created for that connection from
  the collector to any verifier, holding the available ones of the product information and
  string version measurements in that order, and it returns the result of the send.
\<close>

theorem BeginHandshake_baseline:
  assumes init: "imc_android w = Some agent"
      and reg: "get_state agent connection_id = Some state"
  shows
    "(settings h ''android.imc.send_os_info'' = Some False \<longrightarrow>
        TNC_IMC_BeginHandshake h imc_id connection_id w = (TNC_RESULT_SUCCESS, w))
     \<and> (settings h ''android.imc.send_os_info'' \<noteq> Some False \<longrightarrow>
        sent (trace (snd (TNC_IMC_BeginHandshake h imc_id connection_id w))) =
          sent (trace w) @
            [((imc_msg_create agent state connection_id imc_id TNC_IMVID_ANY (msg_types ! 0))
                \<lparr>msg_attributes := List.map_filter (\<lambda>t. fst (get_measurement h t None))
                   [\<lparr>vendor_id = PEN_IETF, type = IETF_ATTR_PRODUCT_INFORMATION\<rparr>,
                    \<lparr>vendor_id = PEN_IETF, type = IETF_ATTR_STRING_VERSION\<rparr>]\<rparr>, False)]
        \<and> fst (TNC_IMC_BeginHandshake h imc_id connection_id w) =
            msg_send h
              ((imc_msg_create agent state connection_id imc_id TNC_IMVID_ANY (msg_types ! 0))
                \<lparr>msg_attributes := List.map_filter (\<lambda>t. fst (get_measurement h t None))
                   [\<lparr>vendor_id = PEN_IETF, type = IETF_ATTR_PRODUCT_INFORMATION\<rparr>,
                    \<lparr>vendor_id = PEN_IETF, type = IETF_ATTR_STRING_VERSION\<rparr>]\<rparr>) False)"
proof -
  have opt: "get_bool h ''android.imc.send_os_info'' True
               \<longleftrightarrow> settings h ''android.imc.send_os_info'' \<noteq> Some False"
    by (cases "settings h ''android.imc.send_os_info''") (simp_all add: get_bool_def)
  show ?thesis
    unfolding BeginHandshake_cases [OF init reg] opt
    by (simp add: Let_def add_measurement_msg add_measurement_sent emit_def
          imc_msg_create_def split: option.splits)
qed

theorem BeginHandshake_baseline_witness:
  "TNC_IMC_BeginHandshake (example_host\<lparr>settings := [''android.imc.send_os_info'' \<mapsto> False]\<rparr>)
      1 7 connected = (TNC_RESULT_SUCCESS, connected)
   \<and> map snd (sent (trace (snd (TNC_IMC_BeginHandshake example_host 1 7 connected)))) = [False]
   \<and> map (map get_type \<circ> msg_attributes \<circ> fst)
        (sent (trace (snd (TNC_IMC_BeginHandshake example_host 1 7 connected)))) =
       [[\<lparr>vendor_id = PEN_IETF, type = IETF_ATTR_PRODUCT_INFORMATION\<rparr>,
         \<lparr>vendor_id = PEN_IETF, type = IETF_ATTR_STRING_VERSION\<rparr>]]
   \<and> fst (TNC_IMC_BeginHandshake example_host 1 7 connected) = TNC_RESULT_SUCCESS"
proof -
  have off: "settings (example_host\<lparr>settings := [''android.imc.send_os_info'' \<mapsto> False]\<rparr>)
               ''android.imc.send_os_info'' = Some False"
    by simp
  have on: "settings example_host ''android.imc.send_os_info'' \<noteq> Some False"
    by (simp add: example_host_def)
  have accepted: "msg_send example_host m False = TNC_RESULT_SUCCESS" for m
    by (simp add: example_host_def)
  have empty: "trace connected = []"
    by (simp add: connected_def)
  show ?thesis
    using BeginHandshake_baseline [OF connected_agent connected_states(1),
            of "example_host\<lparr>settings := [''android.imc.send_os_info'' \<mapsto> False]\<rparr>" 1]
          BeginHandshake_baseline [OF connected_agent connected_states(1), of example_host 1]
          off on accepted empty
    by (simp add: example_measurements)
qed

text \<open>
  Claim C10. On an initialised collector, for a connection id without a state record,
  \<^verbatim>\<open>TNC_IMC_BeginHandshake\<close>, \<^verbatim>\<open>TNC_IMC_ReceiveMessage\<close> and
  \<^verbatim>\<open>TNC_IMC_ReceiveMessageLong\<close> return fatal and leave the state as it was: nothing is
  parsed, no measurement is asked for, nothing is sent. \<^verbatim>\<open>TNC_IMC_BatchEnding\<close> returns
  success for every connection id, with or without a record, and changes nothing.
\<close>

theorem unknown_connection_is_fatal:
  assumes init: "imc_android w = Some agent"
  shows
    "(get_state agent connection_id = None \<longrightarrow>
        TNC_IMC_BeginHandshake h imc_id connection_id w = (TNC_RESULT_FATAL, w)
        \<and> TNC_IMC_ReceiveMessage h imc_id connection_id msg mt w = (TNC_RESULT_FATAL, w)
        \<and> TNC_IMC_ReceiveMessageLong h imc_id connection_id msg_flags msg msg_vid msg_subtype
             src_imv_id dst_imc_id w = (TNC_RESULT_FATAL, w))
     \<and> TNC_IMC_BatchEnding h imc_id connection_id w = (TNC_RESULT_SUCCESS, w)"
  using init
  by (simp add: TNC_IMC_BeginHandshake_def TNC_IMC_ReceiveMessage_def
        TNC_IMC_ReceiveMessageLong_def TNC_IMC_BatchEnding_def)

theorem unknown_connection_is_fatal_witness:
  "TNC_IMC_BeginHandshake example_host 1 8 connected = (TNC_RESULT_FATAL, connected)
   \<and> TNC_IMC_ReceiveMessage example_host 1 8 [1] 1 connected = (TNC_RESULT_FATAL, connected)
   \<and> TNC_IMC_ReceiveMessageLong example_host 1 8 0 [1] 0 1 2 1 connected =
       (TNC_RESULT_FATAL, connected)
   \<and> TNC_IMC_BatchEnding example_host 1 8 connected = (TNC_RESULT_SUCCESS, connected)
   \<and> TNC_IMC_BatchEnding example_host 1 7 connected = (TNC_RESULT_SUCCESS, connected)"
  using unknown_connection_is_fatal [OF connected_agent, of 8 example_host 1 "[1]" 1 0 0 1 2 1]
        unknown_connection_is_fatal [OF connected_agent, of 7 example_host 1 "[1]" 1 0 0 1 2 1]
        connected_states(2)
  by simp

section \<open>The lifecycle of the collector\<close>

text \<open>
  Claim C4. After a \<^verbatim>\<open>TNC_IMC_Initialize\<close> that did not fail fatally, and after any
  sequence of calls of the entry points in which no \<^verbatim>\<open>TNC_IMC_Terminate\<close> returned
  success, a further \<^verbatim>\<open>TNC_IMC_Initialize\<close> returns already-initialised. A
  \<^verbatim>\<open>TNC_IMC_Terminate\<close> that returns success leaves the collector uninitialised, having
  torn down the measurement subsystem first and destroyed the agent second; after it,
  every call of \<^verbatim>\<open>NotifyConnectionChange\<close>, \<^verbatim>\<open>BeginHandshake\<close>, \<^verbatim>\<open>ReceiveMessage\<close>,
  \<^verbatim>\<open>ReceiveMessageLong\<close>, \<^verbatim>\<open>BatchEnding\<close>, \<^verbatim>\<open>Terminate\<close> and
  \<^verbatim>\<open>ProvideBindFunction\<close>, in any number and order, returns not-initialised.
\<close>

theorem lifecycle_misuse:
  "(fst (TNC_IMC_Initialize h i mn mx w) \<noteq> TNC_RESULT_FATAL
      \<and> (\<forall>k < length cs. is_Terminate (cs ! k) \<longrightarrow>
            fst (run h cs (snd (TNC_IMC_Initialize h i mn mx w))) ! k \<noteq> TNC_RESULT_SUCCESS)
     \<longrightarrow> fst (TNC_IMC_Initialize h i' mn' mx'
                (snd (run h cs (snd (TNC_IMC_Initialize h i mn mx w))))) =
           TNC_RESULT_ALREADY_INITIALIZED)
   \<and> (fst (TNC_IMC_Terminate h j w) = TNC_RESULT_SUCCESS \<longrightarrow>
        snd (TNC_IMC_Terminate h j w) =
          \<lparr>imc_android = None, trace = trace w @ [libpts_deinit, agent_destroy]\<rparr>
        \<and> (\<forall>cs'. (\<forall>c \<in> set cs'. \<not> is_Initialize c) \<longrightarrow>
              fst (run h cs' (snd (TNC_IMC_Terminate h j w))) =
                replicate (length cs') TNC_RESULT_NOT_INITIALIZED))"
proof (intro conjI impI)
  assume a: "fst (TNC_IMC_Initialize h i mn mx w) \<noteq> TNC_RESULT_FATAL
      \<and> (\<forall>k < length cs. is_Terminate (cs ! k) \<longrightarrow>
            fst (run h cs (snd (TNC_IMC_Initialize h i mn mx w))) ! k \<noteq> TNC_RESULT_SUCCESS)"
  have "imc_android (snd (TNC_IMC_Initialize h i mn mx w)) \<noteq> None"
    using a by (simp add: Initialize_cases emit_def split: if_splits)
  then have "imc_android (snd (run h cs (snd (TNC_IMC_Initialize h i mn mx w)))) \<noteq> None"
    using a run_stays_initialized by blast
  then show "fst (TNC_IMC_Initialize h i' mn' mx'
                (snd (run h cs (snd (TNC_IMC_Initialize h i mn mx w))))) =
           TNC_RESULT_ALREADY_INITIALIZED"
    by (simp add: Initialize_cases)
next
  assume t: "fst (TNC_IMC_Terminate h j w) = TNC_RESULT_SUCCESS"
  then show w': "snd (TNC_IMC_Terminate h j w) =
          \<lparr>imc_android = None, trace = trace w @ [libpts_deinit, agent_destroy]\<rparr>"
    by (auto simp: Terminate_cases split: if_splits)
  show "\<forall>cs'. (\<forall>c \<in> set cs'. \<not> is_Initialize c) \<longrightarrow>
              fst (run h cs' (snd (TNC_IMC_Terminate h j w))) =
                replicate (length cs') TNC_RESULT_NOT_INITIALIZED"
    unfolding w' by (simp add: run_uninitialized)
qed

theorem lifecycle_misuse_witness:
  "fst (TNC_IMC_Initialize example_host 1 2 3
          (snd (run example_host
                  [NotifyConnectionChange 1 7 TNC_CONNECTION_STATE_CREATE,
                   BeginHandshake 1 7, BatchEnding 1 7]
                  (snd (TNC_IMC_Initialize example_host 1 0 1 uninitialized))))) =
     TNC_RESULT_ALREADY_INITIALIZED
   \<and> snd (TNC_IMC_Terminate example_host 1 connected) =
       \<lparr>imc_android = None, trace = [libpts_deinit, agent_destroy]\<rparr>
   \<and> fst (run example_host
            [NotifyConnectionChange 1 7 TNC_CONNECTION_STATE_HANDSHAKE, BeginHandshake 1 7,
             ReceiveMessage 1 7 [1] 1, ReceiveMessageLong 1 7 0 [1] 0 1 2 1, BatchEnding 1 7,
             Terminate 1, ProvideBindFunction 1 0]
            (snd (TNC_IMC_Terminate example_host 1 connected))) =
       [TNC_RESULT_NOT_INITIALIZED, TNC_RESULT_NOT_INITIALIZED, TNC_RESULT_NOT_INITIALIZED,
        TNC_RESULT_NOT_INITIALIZED, TNC_RESULT_NOT_INITIALIZED, TNC_RESULT_NOT_INITIALIZED,
        TNC_RESULT_NOT_INITIALIZED]"
proof -
  let ?cs = "[NotifyConnectionChange 1 7 TNC_CONNECTION_STATE_CREATE,
              BeginHandshake 1 7, BatchEnding 1 7]"
  let ?cs' = "[NotifyConnectionChange 1 7 TNC_CONNECTION_STATE_HANDSHAKE, BeginHandshake 1 7,
               ReceiveMessage 1 7 [1] 1, ReceiveMessageLong 1 7 0 [1] 0 1 2 1, BatchEnding 1 7,
               Terminate 1, ProvideBindFunction 1 0]"
  have first: "fst (TNC_IMC_Initialize example_host 1 0 1 uninitialized) \<noteq> TNC_RESULT_FATAL"
    by (simp add: Initialize_cases uninitialized_def example_host_def)
  have "\<forall>c \<in> set ?cs. \<not> is_Terminate c"
    by simp
  then have no_term: "\<forall>k < length ?cs. \<not> is_Terminate (?cs ! k)"
    using nth_mem by blast
  have stopped: "fst (TNC_IMC_Terminate example_host 1 connected) = TNC_RESULT_SUCCESS"
    by (simp add: Terminate_cases connected_def)
  have no_init: "\<forall>c \<in> set ?cs'. \<not> is_Initialize c"
    by simp
  have len: "replicate (length ?cs') TNC_RESULT_NOT_INITIALIZED =
       [TNC_RESULT_NOT_INITIALIZED, TNC_RESULT_NOT_INITIALIZED, TNC_RESULT_NOT_INITIALIZED,
        TNC_RESULT_NOT_INITIALIZED, TNC_RESULT_NOT_INITIALIZED, TNC_RESULT_NOT_INITIALIZED,
        TNC_RESULT_NOT_INITIALIZED]"
    by (simp add: numeral_eq_Suc)
  have empty: "trace connected = []"
    by (simp add: connected_def)
  note m = lifecycle_misuse [of example_host 1 0 1 uninitialized ?cs 1 2 3 1]
  note n = lifecycle_misuse [of example_host 1 0 1 connected "[]" 1 2 3 1]
  have a: "fst (TNC_IMC_Initialize example_host 1 2 3
          (snd (run example_host ?cs (snd (TNC_IMC_Initialize example_host 1 0 1 uninitialized))))) =
     TNC_RESULT_ALREADY_INITIALIZED"
    using m first no_term by blast
  have b: "snd (TNC_IMC_Terminate example_host 1 connected) =
       \<lparr>imc_android = None, trace = [libpts_deinit, agent_destroy]\<rparr>"
    using n stopped empty by simp
  have c: "fst (run example_host ?cs' (snd (TNC_IMC_Terminate example_host 1 connected))) =
             replicate (length ?cs') TNC_RESULT_NOT_INITIALIZED"
    using n stopped no_init by blast
  show ?thesis
    using a b c len by simp
qed

text \<open>
  Claim C9. If \<^verbatim>\<open>TNC_IMC_Initialize\<close> returns no-common-version or success, the static
  \<^verbatim>\<open>imc_android\<close> is set afterwards: a further \<^verbatim>\<open>TNC_IMC_Initialize\<close> returns
  already-initialised, and no other entry point takes its not-initialised branch. The
  other entry points hand on the result codes of the send, parse and bind functions of
  the host unchanged, so what they return is not not-initialised as long as those
  functions do not report that code themselves.
\<close>

theorem failed_version_check_leaves_collector_initialized:
  assumes result: "fst (TNC_IMC_Initialize h i mn mx w) = TNC_RESULT_NO_COMMON_VERSION
                   \<or> fst (TNC_IMC_Initialize h i mn mx w) = TNC_RESULT_SUCCESS"
  shows "imc_android (snd (TNC_IMC_Initialize h i mn mx w)) \<noteq> None
         \<and> fst (TNC_IMC_Initialize h i' mn' mx' (snd (TNC_IMC_Initialize h i mn mx w))) =
             TNC_RESULT_ALREADY_INITIALIZED
         \<and> ((\<forall>m e. msg_send h m e \<noteq> TNC_RESULT_NOT_INITIALIZED)
             \<and> (\<forall>m. fst (msg_receive h m) \<noteq> TNC_RESULT_NOT_INITIALIZED)
             \<and> (\<forall>b. agent_bind_functions h b \<noteq> TNC_RESULT_NOT_INITIALIZED)
            \<longrightarrow> (\<forall>c. \<not> is_Initialize c \<longrightarrow>
                   fst (invoke h c (snd (TNC_IMC_Initialize h i mn mx w))) \<noteq>
                     TNC_RESULT_NOT_INITIALIZED))"
proof -
  have init: "imc_android (snd (TNC_IMC_Initialize h i mn mx w)) \<noteq> None"
    using result by (auto simp: Initialize_cases emit_def split: if_splits)
  then show ?thesis
    using invoke_initialized_result [of "snd (TNC_IMC_Initialize h i mn mx w)" _ h]
    by (simp add: Initialize_cases)
qed

theorem failed_version_check_leaves_collector_initialized_witness:
  "fst (TNC_IMC_Initialize example_host 1 2 3 uninitialized) = TNC_RESULT_NO_COMMON_VERSION
   \<and> imc_android (snd (TNC_IMC_Initialize example_host 1 2 3 uninitialized)) \<noteq> None
   \<and> fst (TNC_IMC_Initialize example_host 1 0 1
            (snd (TNC_IMC_Initialize example_host 1 2 3 uninitialized))) =
       TNC_RESULT_ALREADY_INITIALIZED
   \<and> fst (invoke example_host (BeginHandshake 1 7)
            (snd (TNC_IMC_Initialize example_host 1 2 3 uninitialized))) \<noteq>
       TNC_RESULT_NOT_INITIALIZED
   \<and> fst (invoke example_host (Terminate 1)
            (snd (TNC_IMC_Initialize example_host 1 2 3 uninitialized))) \<noteq>
       TNC_RESULT_NOT_INITIALIZED"
proof -
  have ncv: "fst (TNC_IMC_Initialize example_host 1 2 3 uninitialized) =
               TNC_RESULT_NO_COMMON_VERSION"
    by (simp add: Initialize_cases example_host_def uninitialized_def TNC_IFIMC_VERSION_1_def
          word_le_nat_alt)
  have host: "(\<forall>m e. msg_send example_host m e \<noteq> TNC_RESULT_NOT_INITIALIZED)
             \<and> (\<forall>m. fst (msg_receive example_host m) \<noteq> TNC_RESULT_NOT_INITIALIZED)
             \<and> (\<forall>b. agent_bind_functions example_host b \<noteq> TNC_RESULT_NOT_INITIALIZED)"
    by (auto simp: example_host_def example_receive_def split: list.splits)
  note t = failed_version_check_leaves_collector_initialized
             [of example_host 1 2 3 uninitialized 1 0 1]
  have a: "\<not> is_Initialize (BeginHandshake 1 7)" and b: "\<not> is_Initialize (Terminate 1)"
    by simp_all
  show ?thesis
    using t ncv host a b by blast
qed

end
